theory Spec2Isabelle
  imports Main "HOL-Library.Char_ord" "HOL-Library.List_Lexorder" "HOL-Library.AList"
begin

section \<open>Go strings\<close>

text \<open>
  A Go string is a sequence of bytes; it is modelled as \<^typ>\<open>string\<close>, one \<^typ>\<open>char\<close> per
  byte. The helpers below model the functions of the Go library packages \<^verbatim>\<open>strings\<close> and
  \<^verbatim>\<open>regexp\<close> that the source calls, on ASCII text: bytes from 128 on are passed through
  unchanged by \<open>strings_ToLower\<close> (the library lowers non-ASCII letters as well).
\<close>

definition lowerByte :: "char \<Rightarrow> char" where
  "lowerByte c =
     (let n = (of_char c :: nat) in if 65 \<le> n \<and> n \<le> 90 then char_of (n + 32) else c)"

definition strings_ToLower :: "string \<Rightarrow> string" where
  "strings_ToLower s = map lowerByte s"

fun strings_Join :: "string list \<Rightarrow> string \<Rightarrow> string" where
  "strings_Join [] sep = []"
| "strings_Join [x] sep = x"
| "strings_Join (x # y # ys) sep = x @ sep @ strings_Join (y # ys) sep"

section \<open>core: slugified names (core/mod.go)\<close>

text \<open>
  \<^verbatim>\<open>slugifyRegex1 = `\(.*\)`\<close>, replaced by the empty string. The leftmost match starts at
  the first opening parenthesis that has a closing one later on its line (\<^verbatim>\<open>.\<close> does not match
  a newline); the greedy \<^verbatim>\<open>.*\<close> extends the match to the last closing parenthesis of that
  line. The search goes on behind the match.
\<close>

definition newline :: char where
  "newline = CHR 0x0A"

definition closeEnd :: "string \<Rightarrow> nat" where
  "closeEnd rest =
     (let line = takeWhile (\<lambda>c. c \<noteq> newline) rest
      in length line - length (takeWhile (\<lambda>c. c \<noteq> CHR '')'') (rev line)))"

function slugifyRegex1 :: "string \<Rightarrow> string" where
  "slugifyRegex1 [] = []"
| "slugifyRegex1 (c # rest) =
     (if c = CHR ''('' \<and> CHR '')'' \<in> set (takeWhile (\<lambda>c. c \<noteq> newline) rest)
      then slugifyRegex1 (drop (closeEnd rest) rest)
      else c # slugifyRegex1 rest)"
  by pat_completeness auto
termination
  by (relation "measure length") auto

text \<open>
  \<^verbatim>\<open>slugifyRegex2 = ` - .+`\<close>, replaced by the empty string: a space, a hyphen, a space and
  at least one more character of the same line; the greedy \<^verbatim>\<open>.+\<close> takes the rest of the line.
\<close>

function slugifyRegex2 :: "string \<Rightarrow> string" where
  "slugifyRegex2 [] = []"
| "slugifyRegex2 (c # rest) =
     (if c = CHR '' '' \<and> take 2 rest = ''- ''
         \<and> (case drop 2 rest of [] \<Rightarrow> False | d # _ \<Rightarrow> d \<noteq> newline)
      then slugifyRegex2 (dropWhile (\<lambda>x. x \<noteq> newline) (drop 2 rest))
      else c # slugifyRegex2 rest)"
  by pat_completeness auto
termination
proof (relation "measure length")
  show "wf (measure length)" by simp
next
  fix c :: char and rest :: string
  have "length (dropWhile (\<lambda>x. x \<noteq> newline) (drop 2 rest)) \<le> length (drop 2 rest)"
    by (rule length_dropWhile_le)
  then show "(dropWhile (\<lambda>x. x \<noteq> newline) (drop 2 rest), c # rest) \<in> measure length"
    by simp
next
  fix c :: char and rest :: string
  show "(rest, c # rest) \<in> measure length" by simp
qed

text \<open>\<^verbatim>\<open>slugifyRegex3 = `[^a-z\d]`\<close>, each match replaced by a hyphen.\<close>

definition lowerOrDigit :: "char \<Rightarrow> bool" where
  "lowerOrDigit c =
     (let n = (of_char c :: nat) in (97 \<le> n \<and> n \<le> 122) \<or> (48 \<le> n \<and> n \<le> 57))"

definition slugifyRegex3 :: "string \<Rightarrow> string" where
  "slugifyRegex3 s = map (\<lambda>c. if lowerOrDigit c then c else CHR ''-'') s"

text \<open>\<^verbatim>\<open>slugifyRegex4 = `-+`\<close>, each run of hyphens replaced by one hyphen.\<close>

fun slugifyRegex4 :: "string \<Rightarrow> string" where
  "slugifyRegex4 [] = []"
| "slugifyRegex4 [c] = [c]"
| "slugifyRegex4 (c # d # rest) =
     (if c = CHR ''-'' \<and> d = CHR ''-'' then slugifyRegex4 (d # rest)
      else c # slugifyRegex4 (d # rest))"

text \<open>
  \<^verbatim>\<open>slugifyRegex5 = `^-|-$`\<close>, replaced by the empty string: one hyphen at the start and one
  hyphen at the end are removed.
\<close>

definition slugifyRegex5 :: "string \<Rightarrow> string" where
  "slugifyRegex5 s =
     (let t = (case s of [] \<Rightarrow> [] | c # cs \<Rightarrow> if c = CHR ''-'' then cs else s)
      in if t \<noteq> [] \<and> last t = CHR ''-'' then butlast t else t)"

definition SlugifyName :: "string \<Rightarrow> string" where
  "SlugifyName name =
     (let lower = strings_ToLower name;
          noBrackets = slugifyRegex1 lower;
          noSuffix = slugifyRegex2 noBrackets;
          limitedChars = slugifyRegex3 noSuffix;
          noDuplicateDashes = slugifyRegex4 limitedChars;
          noLeadingTrailingDashes = slugifyRegex5 noDuplicateDashes
      in noLeadingTrailingDashes)"

section \<open>modrinth: side from the environment of a bundle file (modrinth/import.go)\<close>

text \<open>The constants of core/mod.go for the side of a mod.\<close>

definition ServerSide :: string where "ServerSide = ''server''"
definition ClientSide :: string where "ClientSide = ''client''"
definition UniversalSide :: string where "UniversalSide = ''both''"
definition EmptySide :: string where "EmptySide = ''''"

record FileEnv =
  Client :: string
  Server :: string

text \<open>
  \<open>determineSideFromEnv\<close> returns the triple \<open>(side, shouldSkip, warning)\<close>; a nil
  \<^verbatim>\<open>*FileEnv\<close> is \<open>None\<close>.
\<close>

definition determineSideFromEnv :: "FileEnv option \<Rightarrow> string \<times> bool \<times> string" where
  "determineSideFromEnv envp =
     (case envp of
        None \<Rightarrow> (UniversalSide, False, '''')
      | Some env \<Rightarrow>
         (let clientSupported = (Client env = ''required'' \<or> Client env = ''optional'');
              serverSupported = (Server env = ''required'' \<or> Server env = ''optional'');
              clientUnsupported = (Client env = ''unsupported'');
              serverUnsupported = (Server env = ''unsupported'');
              clientUnknown = (Client env = ''unknown'' \<or>
                 (Client env \<noteq> ''required'' \<and> Client env \<noteq> ''optional''
                    \<and> Client env \<noteq> ''unsupported'' \<and> Client env \<noteq> ''''));
              serverUnknown = (Server env = ''unknown'' \<or>
                 (Server env \<noteq> ''required'' \<and> Server env \<noteq> ''optional''
                    \<and> Server env \<noteq> ''unsupported'' \<and> Server env \<noteq> ''''))
          in if clientUnsupported \<and> serverUnsupported then ('''', True, '''')
             else if (clientUnsupported \<and> (Server env = '''' \<or> serverUnknown)) \<or>
                     (serverUnsupported \<and> (Client env = '''' \<or> clientUnknown))
             then ('''', True, '''')
             else
               (let warnings = (if clientUnknown then [''client side compatibility unknown''] else [])
                             @ (if serverUnknown then [''server side compatibility unknown''] else []);
                    warningMsg = (if length warnings > 0
                                  then ''Unknown side compatibility: '' @ strings_Join warnings '', ''
                                  else '''')
                in if clientSupported \<and> serverSupported then (UniversalSide, False, warningMsg)
                   else if clientSupported \<or> (clientUnknown \<and> \<not> serverSupported \<and> \<not> serverUnsupported)
                   then (ClientSide, False, warningMsg)
                   else if serverSupported \<or> (serverUnknown \<and> \<not> clientSupported \<and> \<not> clientUnsupported)
                   then (ServerSide, False, warningMsg)
                   else if clientUnknown \<or> serverUnknown
                   then (UniversalSide, False, warningMsg)
                   else if clientUnsupported then (ServerSide, False, warningMsg)
                   else if serverUnsupported then (ClientSide, False, warningMsg)
                   else (UniversalSide, False, warningMsg))))"

section \<open>core: mod metadata (core/mod.go)\<close>

text \<open>
  The structs \<^verbatim>\<open>ModOption\<close>, \<^verbatim>\<open>ModDownload\<close> and \<^verbatim>\<open>Mod\<close>. The pointer field
  \<^verbatim>\<open>Option *ModOption\<close> is an \<open>option\<close>, nil being \<open>None\<close>. A value of the field
  \<^verbatim>\<open>Update map[string]map[string]interface{}\<close> is an association list from the name of the
  update source to its key-value document, with distinct names; \<^verbatim>\<open>updateData\<close> holds, under
  the same names, what the updater of each source parsed from its document. The value parsed by
  the Modrinth updater is the struct \<^verbatim>\<open>mrUpdateData\<close> with the fields \<^verbatim>\<open>ProjectID\<close> and
  \<^verbatim>\<open>InstalledVersion\<close>; the values of the other updaters are kept as their documents.
\<close>

record ModOption =
  Optional :: bool
  Description :: string
  Default :: bool

record ModDownload =
  URL :: string
  DisabledClientPlatforms :: "string list"
  HashFormat :: string
  Hash :: string
  Mode :: string

type_synonym update_doc = "(string \<times> string) list"

datatype update_data =
  mrUpdateData (mr_ProjectID: string) (mr_InstalledVersion: string)
| otherUpdateData update_doc

record Mod =
  metaFile :: string
  Name :: string
  FileName :: string
  Side :: string
  Pin :: bool
  Download :: ModDownload
  Update :: "(string \<times> update_doc) list"
  updateData :: "(string \<times> update_data) list"
  Option :: "ModOption option"

definition ValidClientPlatforms :: "string list" where
  "ValidClientPlatforms = [''macos'', ''linux'', ''windows'']"

text \<open>
  \<^verbatim>\<open>strings.TrimSpace\<close> on ASCII text: tab, line feed, vertical tab, form feed, carriage
  return and space are removed at both ends.
\<close>

definition isSpace :: "char \<Rightarrow> bool" where
  "isSpace c = (let n = (of_char c :: nat) in (9 \<le> n \<and> n \<le> 13) \<or> n = 32)"

definition strings_TrimSpace :: "string \<Rightarrow> string" where
  "strings_TrimSpace s = rev (dropWhile isSpace (rev (dropWhile isSpace s)))"

text \<open>\<open>GetParsedUpdateData\<close> looks a name up in \<^verbatim>\<open>updateData\<close>.\<close>

definition GetParsedUpdateData :: "Mod \<Rightarrow> string \<Rightarrow> update_data option" where
  "GetParsedUpdateData m updaterName = map_of (updateData m) updaterName"

text \<open>\<open>ValidateSide\<close> returns the error message, or \<open>None\<close> for a valid side.\<close>

definition ValidateSide :: "string \<Rightarrow> string option" where
  "ValidateSide side =
     (if side = [] then Some ''side cannot be empty''
      else if side \<in> set [ClientSide, ServerSide, UniversalSide, ''both''] then None
      else Some (''invalid side '' @ [CHR 0x27] @ side @ [CHR 0x27]
                  @ ''. Valid values are: client, server, both, both''))"

definition NormalizeSide :: "string \<Rightarrow> string" where
  "NormalizeSide side0 =
     (let side = strings_TrimSpace side0
      in if side = ''both'' then UniversalSide else side)"

fun ValidateClientPlatforms :: "string list \<Rightarrow> string option" where
  "ValidateClientPlatforms [] = None"
| "ValidateClientPlatforms (platform # platforms) =
     (if platform = [] then ValidateClientPlatforms platforms
      else
        (let p = strings_ToLower (strings_TrimSpace platform)
         in if p \<in> set ValidClientPlatforms then ValidateClientPlatforms platforms
            else Some (''invalid platform '' @ [CHR 0x27] @ p @ [CHR 0x27]
                        @ ''. Valid platforms are: macos, linux, windows'')))"

text \<open>
  The loop of \<open>NormalizeClientPlatforms\<close>, with the slice \<^verbatim>\<open>normalized\<close> built so far as
  accumulator; \<^verbatim>\<open>seen[p]\<close> is true exactly for the members of \<^verbatim>\<open>normalized\<close>.
\<close>

fun normalizeLoop :: "string list \<Rightarrow> string list \<Rightarrow> string list" where
  "normalizeLoop normalized [] = normalized"
| "normalizeLoop normalized (platform # platforms) =
     (if platform = [] then normalizeLoop normalized platforms
      else
        (let p = strings_ToLower (strings_TrimSpace platform)
         in if p \<notin> set normalized \<and> p \<in> set ValidClientPlatforms
            then normalizeLoop (normalized @ [p]) platforms
            else normalizeLoop normalized platforms))"

definition NormalizeClientPlatforms :: "string list \<Rightarrow> string list" where
  "NormalizeClientPlatforms platforms = normalizeLoop [] platforms"

text \<open>
  The \<^verbatim>\<open>[option]\<close> table that the encoder writes for the field
  \<^verbatim>\<open>Option *ModOption `toml:"option,omitempty"`\<close>: nothing for a nil pointer; for a block,
  the key \<^verbatim>\<open>optional\<close> always, and \<^verbatim>\<open>description\<close> and \<^verbatim>\<open>default\<close> unless empty
  (\<^verbatim>\<open>omitempty\<close>).
\<close>

definition showBool :: "bool \<Rightarrow> string" where
  "showBool b = (if b then ''true'' else ''false'')"

definition encodeOption :: "ModOption option \<Rightarrow> (string \<times> string) list option" where
  "encodeOption opt =
     (case opt of
        None \<Rightarrow> None
      | Some b \<Rightarrow> Some ([(''optional'', showBool (Optional b))]
                      @ (if Description b \<noteq> [] then [(''description'', Description b)] else [])
                      @ (if Default b then [(''default'', showBool (Default b))] else [])))"

section \<open>cmd: the modify command (cmd/modify.go)\<close>

text \<open>
  The flags of the command: a flag is \<open>Some v\<close> when \<^verbatim>\<open>cmd.Flags().Changed\<close> holds for it,
  with \<open>v\<close> its value.
\<close>

record ModifyFlags =
  flag_side :: "string option"
  flag_disabled_client_platforms :: "string list option"
  flag_pin :: "bool option"
  flag_optional :: "bool option"
  flag_optional_description :: "string option"
  flag_optional_default :: "bool option"

text \<open>
  The outcome of \<open>modifyModProperties\<close> on a loaded record: \<open>Exit1\<close> for
  \<^verbatim>\<open>os.Exit(1)\<close> after a validation error, \<open>NoChanges\<close> for the return at
  "No changes specified", and \<open>Written m\<close> when \<^verbatim>\<open>modData.Write()\<close> is reached with the
  record \<open>m\<close>.
\<close>

datatype modify_result = Exit1 string | NoChanges | Written Mod

text \<open>The block "Handle optional settings": the new \<^verbatim>\<open>modData.Option\<close>.\<close>

definition modifyOption :: "ModifyFlags \<Rightarrow> ModOption option \<Rightarrow> ModOption option" where
  "modifyOption flags opt0 =
     (if flag_optional flags \<noteq> None \<or> flag_optional_description flags \<noteq> None
         \<or> flag_optional_default flags \<noteq> None
      then
        (let o0 = (case opt0 of
                     None \<Rightarrow> \<lparr>Optional = False, Description = [], Default = False\<rparr>
                   | Some b \<Rightarrow> b);
             o1 = (case flag_optional flags of None \<Rightarrow> o0 | Some v \<Rightarrow> o0\<lparr>Optional := v\<rparr>);
             o2 = (case flag_optional_description flags of
                     None \<Rightarrow> o1 | Some d \<Rightarrow> o1\<lparr>Description := d\<rparr>);
             o3 = (case flag_optional_default flags of None \<Rightarrow> o2 | Some v \<Rightarrow> o2\<lparr>Default := v\<rparr>)
         in if \<not> Optional o3 \<and> Description o3 = [] \<and> \<not> Default o3 then None else Some o3)
      else opt0)"

definition modifyModProperties :: "ModifyFlags \<Rightarrow> Mod \<Rightarrow> modify_result" where
  "modifyModProperties flags modData =
     (case (case flag_side flags of
              None \<Rightarrow> Inr (modData, False)
            | Some side0 \<Rightarrow>
                (let side = strings_TrimSpace side0
                 in case ValidateSide side of
                      Some err \<Rightarrow> Inl (''Side validation error: '' @ err)
                    | None \<Rightarrow> Inr (modData\<lparr>Side := NormalizeSide side\<rparr>, True))) of
        Inl err \<Rightarrow> Exit1 err
      | Inr (m1, changed1) \<Rightarrow>
     (case (case flag_disabled_client_platforms flags of
              None \<Rightarrow> Inr (m1, changed1)
            | Some platforms \<Rightarrow>
                (case ValidateClientPlatforms platforms of
                   Some err \<Rightarrow> Inl (''Platform validation error: '' @ err)
                 | None \<Rightarrow>
                     Inr (m1\<lparr>Download := (Download m1)
                              \<lparr>DisabledClientPlatforms := NormalizeClientPlatforms platforms\<rparr>\<rparr>,
                          True))) of
        Inl err \<Rightarrow> Exit1 err
      | Inr (m2, changed2) \<Rightarrow>
     (let (m3, changed3) = (case flag_pin flags of
                              None \<Rightarrow> (m2, changed2)
                            | Some pin \<Rightarrow> (m2\<lparr>Pin := pin\<rparr>, True));
          optionalChanged = (flag_optional flags \<noteq> None \<or> flag_optional_description flags \<noteq> None
                               \<or> flag_optional_default flags \<noteq> None);
          m4 = m3\<lparr>Option := modifyOption flags (Option m3)\<rparr>;
          changed = (changed3 \<or> optionalChanged)
      in if \<not> changed then NoChanges else Written m4)))"

section \<open>core: the index\<close>

text \<open>
  The index maps a relative path to its entry. It is an association list with distinct paths,
  so that the loops of the source over \<^verbatim>\<open>index.Files\<close> can run through it.
\<close>

record IndexFile =
  idx_HashFormat :: string
  idx_Hash :: string
  idx_MetaFile :: bool
  idx_Preserve :: bool

type_synonym Index = "(string \<times> IndexFile) list"

text \<open>
  Modelled from the spec: \<^verbatim>\<open>Index.RefreshFileWithHash\<close> is called by the sources at hand but
  defined in a file that is not among them. Section 4.1 of the specification gives it as
  \<^verbatim>\<open>refreshEntry(path, hashFormat, hashValue, isMetaFile)\<close>, which "inserts or overwrites; no
  side effects beyond in-memory map mutation". The preserve flag is not among its arguments:
  an entry that is overwritten keeps it, a new entry has it unset.
\<close>

definition RefreshFileWithHash :: "Index \<Rightarrow> string \<Rightarrow> string \<Rightarrow> string \<Rightarrow> bool \<Rightarrow> Index" where
  "RefreshFileWithHash idx path format hash markAsMetaFile =
     AList.update path
       \<lparr>idx_HashFormat = format, idx_Hash = hash, idx_MetaFile = markAsMetaFile,
        idx_Preserve = (case map_of idx path of None \<Rightarrow> False | Some e \<Rightarrow> idx_Preserve e)\<rparr>
       idx"

section \<open>modrinth: the import command (modrinth/import.go)\<close>

text \<open>
  The file references of a bundle manifest and the answers of the hash lookup. Fields of
  different Go structs that share a name carry a prefix here: \<open>hr_\<close> for
  \<^verbatim>\<open>HashResponse\<close>, \<open>ver_\<close> for a version, \<open>prj_\<close> for a project, \<open>file_\<close> for a file of a
  version.
\<close>

record ModrinthIndexFileRef =
  Path :: string
  Hashes :: "(string \<times> string) list"
  Env :: "FileEnv option"
  Downloads :: "string list"
  FileSize :: int

record HashResponse =
  hr_ID :: string
  hr_ProjectID :: string

record File =
  Filename :: string
  file_URL :: string
  Primary :: "bool option"

record Version =
  ver_ID :: string
  ver_ProjectID :: string
  ver_Files :: "File list"
  Loaders :: "string list"

record Project =
  prj_ID :: "string option"
  Title :: string
  Slug :: "string option"
  ProjectType :: string
  prj_ClientSide :: string
  prj_ServerSide :: string

text \<open>
  What the import command takes from outside the sources at hand, as parameters. An error is
  its message. The catalog answers the \<open>n\<close>-th call of a run (\<open>ProjectsGet\<close>,
  \<open>VersionsGet\<close>), so that a call can fail and a later one succeed; likewise
  \<open>indexWriteErr\<close>, \<open>updateIndexHashErr\<close> and \<open>packWriteErr\<close> give the error, if any, of the
  \<open>n\<close>-th attempt to write the index of a run. \<open>ModWrite\<close> is \<^verbatim>\<open>Mod.Write\<close>, which
  returns the hash of the record file it wrote with the format \<^verbatim>\<open>sha256\<close>, or an error.
  \<open>installedProjects\<close> is the result of the call \<^verbatim>\<open>getInstalledProjectIDs(&index)\<close> that
  precedes the loop.
\<close>

record import_env =
  mrpackFiles :: "ModrinthIndexFileRef list"
  installedProjects :: "string list"
  ProjectsGet :: "nat \<Rightarrow> string \<Rightarrow> string + Project"
  VersionsGet :: "nat \<Rightarrow> string \<Rightarrow> string + Version"
  getSide :: "Project \<Rightarrow> string"
  getBestHash :: "File \<Rightarrow> string \<times> string"
  mrToMap :: "string \<Rightarrow> string \<Rightarrow> string + update_doc"
  metaFolder :: string
  metaFolderBase :: string
  getProjectTypeFolder :: "string \<Rightarrow> string list \<Rightarrow> string list \<Rightarrow> string + string"
  compatibleLoaders :: "string list"
  MetaExtension :: string
  filepath_Join :: "string list \<Rightarrow> string"
  ModWrite :: "Mod \<Rightarrow> string + string"
  hashIndex :: "Index \<Rightarrow> string"
  indexWriteErr :: "nat \<Rightarrow> string option"
  updateIndexHashErr :: "nat \<Rightarrow> string option"
  packWriteErr :: "nat \<Rightarrow> string option"

text \<open>The lines that the loop and \<open>saveProgress\<close> print, one constructor per message.\<close>

datatype event =
  WarnNoFileInfo string
| SkipInstalled string
| RateLimited nat
| FailedProjectInfo string string
| WarnNoSide string
| Installing string nat nat string string
| FailedInstall string string string
| CheckpointMsg nat
| SavingProgress nat
| WarnIndexWrite string
| WarnUpdateHash string
| WarnPackWrite string

text \<open>
  The state of a run: the counters of the command, the index in memory and the hash of the
  index file in the pack in memory, the index file and the pack file on disk (\<open>diskIndex\<close>,
  \<open>diskPackIndexHash\<close>), the number of calls of the catalog and of attempts to write the
  index so far, the seconds slept, and the lines printed. \<open>refreshed\<close> is a history variable:
  the paths given to \<open>RefreshFileWithHash\<close>, in order. The record files on disk are not part
  of the state.
\<close>

record import_state =
  successCount :: nat
  skippedCount :: nat
  processedCount :: nat
  index :: Index
  packIndexHash :: string
  diskIndex :: Index
  diskPackIndexHash :: string
  apiCalls :: nat
  writes :: nat
  slept :: nat
  refreshed :: "string list"
  printed :: "event list"

text \<open>\<open>containsAny\<close>: some index \<open>i\<close> with \<^verbatim>\<open>s[i:i+len(substr)] == substr\<close>.\<close>

definition containsAny :: "string \<Rightarrow> string list \<Rightarrow> bool" where
  "containsAny s substrings =
     list_ex (\<lambda>substr. length s \<ge> length substr \<and>
                list_ex (\<lambda>i. take (length substr) (drop i s) = substr)
                  [0 ..< length s - length substr + 1])
       substrings"

definition maxRetries :: nat where
  "maxRetries = 3"

definition rateLimitIndicators :: "string list" where
  "rateLimitIndicators =
     [''429'', ''rate limit'', ''Rate limit'', ''too many requests'', ''Too Many Requests'']"

text \<open>
  The loop of \<open>getProjectWithRateLimit\<close> from attempt \<open>attempt\<close> on; \<open>calls\<close> counts the
  calls of the catalog and \<open>sl\<close> the seconds slept. The result is the value returned, the
  new count of calls and the seconds slept. Before each sleep of 60 seconds the function
  prints "Rate limited, waiting ... before retry k/3"; the loop of the command below enters
  these lines as \<open>RateLimited k\<close>, one for each sleep.
\<close>

function getProjectLoop ::
  "(nat \<Rightarrow> string \<Rightarrow> string + Project) \<Rightarrow> string \<Rightarrow> nat \<Rightarrow> nat \<Rightarrow> nat
     \<Rightarrow> (string + Project) \<times> nat \<times> nat" where
  "getProjectLoop Get projectID attempt calls sl =
     (if attempt < maxRetries then
        (case Get calls projectID of
           Inr project \<Rightarrow> (Inr project, calls + 1, sl)
         | Inl errorMsg \<Rightarrow>
             (let isRateLimit = containsAny errorMsg rateLimitIndicators
              in if isRateLimit \<and> attempt < maxRetries - 1
                 then getProjectLoop Get projectID (attempt + 1) (calls + 1) (sl + 60)
                 else (Inl errorMsg, calls + 1, sl)))
      else (Inl ''failed to get project after 3 retries'', calls, sl))"
  by pat_completeness auto
termination
  by (relation "measure (\<lambda>(Get, projectID, attempt, calls, sl). maxRetries - attempt)") auto

definition getProjectWithRateLimit ::
  "(nat \<Rightarrow> string \<Rightarrow> string + Project) \<Rightarrow> string \<Rightarrow> nat \<Rightarrow> (string + Project) \<times> nat \<times> nat" where
  "getProjectWithRateLimit Get projectID calls = getProjectLoop Get projectID 0 calls 0"

definition findPrimaryFile :: "Version \<Rightarrow> string list \<Rightarrow> File option" where
  "findPrimaryFile version loaders =
     (case ver_Files version of
        [] \<Rightarrow> None
      | first # _ \<Rightarrow>
          (case find (\<lambda>file. Primary file = Some True) (ver_Files version) of
             Some file \<Rightarrow> Some file
           | None \<Rightarrow> Some first))"

text \<open>
  The three functions of an installation return \<open>InstallOK\<close> for nil or the error, and
  the new state. The fields of the catalog's records are pointers in the source. Those that
  the source compares with nil somewhere (\<^verbatim>\<open>ID\<close> and \<^verbatim>\<open>Slug\<close> of a project,
  \<^verbatim>\<open>Primary\<close> of a file) are options, and dereferencing a nil \<^verbatim>\<open>ID\<close> is the outcome
  \<open>InstallPanic\<close>; the others are taken as present.
\<close>

datatype install_result = InstallOK | InstallError string | InstallPanic

definition createFileMetaWithSide ::
  "import_env \<Rightarrow> Project \<Rightarrow> Version \<Rightarrow> File \<Rightarrow> string \<Rightarrow> import_state
     \<Rightarrow> install_result \<times> import_state" where
  "createFileMetaWithSide env project version file customSide st =
     (case prj_ID project of
        None \<Rightarrow> (InstallPanic, st)
      | Some projectID \<Rightarrow>
     (case mrToMap env projectID (ver_ID version) of
        Inl err \<Rightarrow> (InstallError err, st)
      | Inr doc \<Rightarrow>
          (case getBestHash env file of
             (algorithm, hash) \<Rightarrow>
               if algorithm = [] then (InstallError ''file doesn't have a hash'', st)
               else
                 (case (if metaFolder env = []
                        then getProjectTypeFolder env (ProjectType project) (Loaders version)
                               (compatibleLoaders env)
                        else Inr (metaFolder env)) of
                    Inl err \<Rightarrow> (InstallError err, st)
                  | Inr folder \<Rightarrow>
                      (let path = filepath_Join env
                             [metaFolderBase env, folder,
                              (case Slug project of
                                 Some slug \<Rightarrow> slug
                               | None \<Rightarrow> SlugifyName (Title project)) @ MetaExtension env];
                           modMeta =
                             \<lparr>metaFile = path, Name = Title project, FileName = Filename file,
                              Side = customSide, Pin = False,
                              Download = \<lparr>URL = file_URL file, DisabledClientPlatforms = [],
                                          HashFormat = algorithm, Hash = hash, Mode = []\<rparr>,
                              Update = [(''modrinth'', doc)], updateData = [], Option = None\<rparr>
                       in case ModWrite env modMeta of
                            Inl err \<Rightarrow> (InstallError err, st)
                          | Inr written \<Rightarrow>
                              (InstallOK,
                               st\<lparr>index := RefreshFileWithHash (index st) path ''sha256'' written True,
                                  refreshed := refreshed st @ [path]\<rparr>))))))"

definition installVersionWithSide ::
  "import_env \<Rightarrow> Project \<Rightarrow> Version \<Rightarrow> string \<Rightarrow> string \<Rightarrow> import_state
     \<Rightarrow> install_result \<times> import_state" where
  "installVersionWithSide env project version versionFilename customSide st =
     (case (if versionFilename = []
            then (case findPrimaryFile version (compatibleLoaders env) of
                    None \<Rightarrow> Inl ''no compatible files found for this version''
                  | Some file \<Rightarrow> Inr file)
            else (case find (\<lambda>f. Filename f = versionFilename) (ver_Files version) of
                    None \<Rightarrow> Inl (''file with name '' @ versionFilename @ '' not found'')
                  | Some file \<Rightarrow> Inr file)) of
        Inl err \<Rightarrow> (InstallError err, st)
      | Inr file \<Rightarrow> createFileMetaWithSide env project version file customSide st)"

definition installVersionByIdWithSide ::
  "import_env \<Rightarrow> string \<Rightarrow> string \<Rightarrow> string \<Rightarrow> import_state \<Rightarrow> install_result \<times> import_state" where
  "installVersionByIdWithSide env versionId versionFilename side st =
     (case VersionsGet env (apiCalls st) versionId of
        Inl err \<Rightarrow> (InstallError (''failed to get version info: '' @ err), st\<lparr>apiCalls := apiCalls st + 1\<rparr>)
      | Inr version \<Rightarrow>
          (case ProjectsGet env (apiCalls st + 1) (ver_ProjectID version) of
             Inl err \<Rightarrow>
               (InstallError (''failed to get project info: '' @ err), st\<lparr>apiCalls := apiCalls st + 2\<rparr>)
           | Inr project \<Rightarrow>
               installVersionWithSide env project version versionFilename side
                 (st\<lparr>apiCalls := apiCalls st + 2\<rparr>)))"

text \<open>
  \<open>saveProgress\<close>: nothing when no installation has succeeded; otherwise the index is
  written, then the hash of the index file is taken into the pack, then the pack is written,
  each step only when the one before succeeded. A failure prints a warning and nothing more.
\<close>

definition saveProgress :: "import_env \<Rightarrow> import_state \<Rightarrow> import_state" where
  "saveProgress env st =
     (if successCount st > 0 then
        (let st1 = st\<lparr>printed := printed st @ [SavingProgress (successCount st)],
                      writes := writes st + 1\<rparr>
         in case indexWriteErr env (writes st) of
              Some writeErr \<Rightarrow> st1\<lparr>printed := printed st1 @ [WarnIndexWrite writeErr]\<rparr>
            | None \<Rightarrow>
                (let st2 = st1\<lparr>diskIndex := index st1\<rparr>
                 in case updateIndexHashErr env (writes st) of
                      Some hashErr \<Rightarrow> st2\<lparr>printed := printed st2 @ [WarnUpdateHash hashErr]\<rparr>
                    | None \<Rightarrow>
                        (let st3 = st2\<lparr>packIndexHash := hashIndex env (diskIndex st2)\<rparr>
                         in case packWriteErr env (writes st) of
                              Some packErr \<Rightarrow> st3\<lparr>printed := printed st3 @ [WarnPackWrite packErr]\<rparr>
                            | None \<Rightarrow> st3\<lparr>diskPackIndexHash := packIndexHash st3\<rparr>)))
      else st)"

text \<open>
  A Go map is run through in an order that the runtime chooses anew for each loop. The map
  \<^verbatim>\<open>versionMap\<close> is given as the list of its entries \<open>(hash, versionInfo)\<close> in the order of
  the run, with distinct hashes.

  One iteration of the loop over \<^verbatim>\<open>versionMap\<close>. The slice \<^verbatim>\<open>hash[:8]\<close> of the warning
  panics for a hash shorter than eight bytes.
\<close>

datatype loop_result = Completed import_state | Panicked import_state

definition findFileRef :: "ModrinthIndexFileRef list \<Rightarrow> string \<Rightarrow> ModrinthIndexFileRef option" where
  "findFileRef files hash = find (\<lambda>file. map_of (Hashes file) ''sha512'' = Some hash) files"

definition importStep ::
  "import_env \<Rightarrow> nat \<Rightarrow> string \<times> HashResponse \<Rightarrow> import_state \<Rightarrow> loop_result" where
  "importStep env totalMods item st0 =
     (let hash = fst item;
          versionInfo = snd item;
          st = st0\<lparr>processedCount := processedCount st0 + 1\<rparr>
      in case findFileRef (mrpackFiles env) hash of
           None \<Rightarrow>
             if length hash < 8 then Panicked st
             else Completed (st\<lparr>printed := printed st @ [WarnNoFileInfo (take 8 hash)]\<rparr>)
         | Some fileRef \<Rightarrow>
             if hr_ProjectID versionInfo \<in> set (installedProjects env)
             then Completed (st\<lparr>skippedCount := skippedCount st + 1,
                                printed := printed st @ [SkipInstalled (hr_ProjectID versionInfo)]\<rparr>)
             else
               (case getProjectWithRateLimit (ProjectsGet env) (hr_ProjectID versionInfo)
                       (apiCalls st) of
                  (res, calls, sl) \<Rightarrow>
                    (let st1 = st\<lparr>apiCalls := calls, slept := slept st + sl,
                                  printed := printed st @ map RateLimited [2 ..< 2 + sl div 60]\<rparr>
                     in case res of
                          Inl err \<Rightarrow>
                            Completed (st1\<lparr>printed := printed st1
                                             @ [FailedProjectInfo (hr_ID versionInfo) err]\<rparr>)
                        | Inr project \<Rightarrow>
                            (let side0 = getSide env project;
                                 side = (if side0 = [] then UniversalSide else side0);
                                 st2 = st1\<lparr>printed := printed st1
                                         @ (if side0 = [] then [WarnNoSide (Title project)] else [])
                                         @ [Installing (Title project) (processedCount st1) totalMods
                                              (hr_ID versionInfo) side]\<rparr>
                             in case installVersionByIdWithSide env (hr_ID versionInfo) [] side st2 of
                                  (InstallPanic, st3) \<Rightarrow> Panicked st3
                                | (InstallError err, st3) \<Rightarrow>
                                    Completed (st3\<lparr>printed := printed st3
                                        @ [FailedInstall (Title project) (hr_ID versionInfo) err]\<rparr>)
                                | (InstallOK, st3) \<Rightarrow>
                                    (let st4 = st3\<lparr>successCount := successCount st3 + 1\<rparr>
                                     in if successCount st4 mod 10 = 0
                                        then Completed (saveProgress env
                                               (st4\<lparr>printed := printed st4
                                                      @ [CheckpointMsg (successCount st4)]\<rparr>))
                                        else Completed st4)))))"

fun importLoop ::
  "import_env \<Rightarrow> nat \<Rightarrow> (string \<times> HashResponse) list \<Rightarrow> import_state \<Rightarrow> loop_result" where
  "importLoop env totalMods [] st = Completed st"
| "importLoop env totalMods (item # items) st =
     (case importStep env totalMods item st of
        Panicked st' \<Rightarrow> Panicked st'
      | Completed st' \<Rightarrow> importLoop env totalMods items st')"

text \<open>
  The ways a run of the batch ends. \<open>importBatch\<close> is the command from the loop on without
  a signal: a panic of the loop is recovered by the deferred function, which calls
  \<open>saveProgress\<close> and lets the command return; after a loop that completes, the index, the
  hash and the pack are written, and a failure exits with status 1. The overrides that are
  copied in between go to files of the pack, not to the index. \<open>importSignalled k\<close> is a run
  in which a signal arrives after \<open>k\<close> iterations: the listener calls \<open>saveProgress\<close> and
  exits with status 0.
\<close>

datatype ending = Returned | Recovered | Exited nat

definition importFinish :: "import_env \<Rightarrow> import_state \<Rightarrow> ending \<times> import_state" where
  "importFinish env st =
     (let st1 = st\<lparr>writes := writes st + 1\<rparr>
      in case indexWriteErr env (writes st) of
           Some err \<Rightarrow> (Exited 1, st1)
         | None \<Rightarrow>
             (let st2 = st1\<lparr>diskIndex := index st1\<rparr>
              in case updateIndexHashErr env (writes st) of
                   Some err \<Rightarrow> (Exited 1, st2)
                 | None \<Rightarrow>
                     (let st3 = st2\<lparr>packIndexHash := hashIndex env (diskIndex st2)\<rparr>
                      in case packWriteErr env (writes st) of
                           Some err \<Rightarrow> (Exited 1, st3)
                         | None \<Rightarrow> (Returned, st3\<lparr>diskPackIndexHash := packIndexHash st3\<rparr>))))"

definition importBatch ::
  "import_env \<Rightarrow> (string \<times> HashResponse) list \<Rightarrow> import_state \<Rightarrow> ending \<times> import_state" where
  "importBatch env versionMap st =
     (case importLoop env (length versionMap) versionMap st of
        Panicked st' \<Rightarrow> (Recovered, saveProgress env st')
      | Completed st' \<Rightarrow> importFinish env st')"

definition importSignalled ::
  "import_env \<Rightarrow> (string \<times> HashResponse) list \<Rightarrow> nat \<Rightarrow> import_state \<Rightarrow> ending \<times> import_state" where
  "importSignalled env versionMap k st =
     (case importLoop env (length versionMap) (take k versionMap) st of
        Panicked st' \<Rightarrow> (Recovered, saveProgress env st')
      | Completed st' \<Rightarrow> (Exited 0, saveProgress env st'))"

text \<open>The state in which a loop ended, completed or not.\<close>

definition resultState :: "loop_result \<Rightarrow> import_state" where
  "resultState r = (case r of Completed st \<Rightarrow> st | Panicked st \<Rightarrow> st)"

text \<open>
  The invariant of the loop behind the checkpoints: every successful installation has refreshed
  one path, the refreshed paths are in the index in memory, and those of the installations up
  to the last multiple of ten are in the index file on disk.
\<close>

definition checkpointInv :: "import_env \<Rightarrow> import_state \<Rightarrow> bool" where
  "checkpointInv env st \<longleftrightarrow>
     length (refreshed st) = successCount st
     \<and> set (refreshed st) \<subseteq> fst ` set (index st)
     \<and> set (take (successCount st div 10 * 10) (refreshed st)) \<subseteq> fst ` set (diskIndex st)"

section \<open>modrinth: the diff command\<close>

text \<open>
  \<open>LoadMod\<close> (core/mod.go) decodes the record file and has the updater registered under
  each name of \<^verbatim>\<open>Update\<close> parse its document; a name without updater is an error. The
  decoder, the registry \<^verbatim>\<open>Updaters\<close> and the other readers that the command calls are
  parameters. Those that read files take the files on disk, a list of paths with their
  contents, as argument.
\<close>

type_synonym disk = "(string \<times> string) list"

record Pack =
  pack_Name :: string

record ModrinthIndexFile =
  mif_FormatVersion :: int
  mif_Game :: string
  mif_VersionID :: string
  mif_Name :: string
  mif_Summary :: string
  mif_Files :: "ModrinthIndexFileRef list"
  mif_Dependencies :: "(string \<times> string) list"

text \<open>
  \<open>versionsByHash\<close> is \<^verbatim>\<open>lookupVersionsByHash\<close>, the request to the catalog; the map it
  returns is the list of its entries in the order in which the run goes through it.
\<close>

record diff_env =
  LoadPack :: "disk \<Rightarrow> string + Pack"
  LoadIndex :: "disk \<Rightarrow> Pack \<Rightarrow> string + Index"
  ResolveIndexPath :: "string \<Rightarrow> string"
  DecodeFile :: "disk \<Rightarrow> string \<Rightarrow> string + Mod"
  Updaters :: "(string \<times> (update_doc \<Rightarrow> string + update_data)) list"
  parseMrpackFile :: "disk \<Rightarrow> string \<Rightarrow> string + ModrinthIndexFile"
  versionsByHash :: "string list \<Rightarrow> string + (string \<times> HashResponse) list"
  GetMultiple :: "string list \<Rightarrow> string + Project list"
  projectSide :: "Project \<Rightarrow> string"

fun parseUpdates ::
  "(string \<times> (update_doc \<Rightarrow> string + update_data)) list \<Rightarrow> (string \<times> update_doc) list
     \<Rightarrow> string + (string \<times> update_data) list" where
  "parseUpdates updaters [] = Inr []"
| "parseUpdates updaters ((k, v) # rest) =
     (case map_of updaters k of
        None \<Rightarrow> Inl (''Update plugin '' @ k @ '' not found!'')
      | Some updater \<Rightarrow>
          (case updater v of
             Inl err \<Rightarrow> Inl err
           | Inr parsed \<Rightarrow>
               (case parseUpdates updaters rest of
                  Inl err \<Rightarrow> Inl err
                | Inr others \<Rightarrow> Inr ((k, parsed) # others))))"

definition LoadMod :: "diff_env \<Rightarrow> disk \<Rightarrow> string \<Rightarrow> string + Mod" where
  "LoadMod env d modFile =
     (case DecodeFile env d modFile of
        Inl err \<Rightarrow> Inl err
      | Inr decoded \<Rightarrow>
          (case parseUpdates (Updaters env) (Update decoded) of
             Inl err \<Rightarrow> Inl err
           | Inr parsed \<Rightarrow> Inr (decoded\<lparr>updateData := parsed, metaFile := modFile\<rparr>)))"

text \<open>
  The structs \<^verbatim>\<open>ModInfo\<close> and \<^verbatim>\<open>ModSources\<close>; their fields carry the prefixes \<open>mi_\<close>
  and \<open>src_\<close> where the name is taken. A map from project identifiers to \<^verbatim>\<open>ModInfo\<close> is
  an association list with distinct keys.
\<close>

record ModInfo =
  mi_ProjectID :: string
  mi_VersionID :: string
  ProjectName :: string
  mi_FileName :: string
  mi_Side :: string

record ModSources =
  src_Modrinth :: nat
  src_CurseForge :: nat
  src_URL :: nat
  src_Other :: nat

text \<open>
  The body of the loop of \<open>getCurrentModrinthMods\<close> for one record that was loaded
  ("Check mod source and count"): the new map of Modrinth mods and the new counts.
\<close>

definition tallyMod ::
  "Mod \<Rightarrow> (string \<times> ModInfo) list \<times> ModSources \<Rightarrow> (string \<times> ModInfo) list \<times> ModSources" where
  "tallyMod m acc =
     (case acc of
        (mods, sources) \<Rightarrow>
          (case (case GetParsedUpdateData m ''modrinth'' of
                   Some (mrUpdateData projectID installedVersion) \<Rightarrow>
                     if projectID \<noteq> [] then Some (projectID, installedVersion) else None
                 | Some (otherUpdateData doc) \<Rightarrow> None
                 | None \<Rightarrow> None) of
             Some (projectID, installedVersion) \<Rightarrow>
               (AList.update projectID
                  \<lparr>mi_ProjectID = projectID, mi_VersionID = installedVersion,
                   ProjectName = Name m, mi_FileName = FileName m, mi_Side = Side m\<rparr> mods,
                sources\<lparr>src_Modrinth := src_Modrinth sources + 1\<rparr>)
           | None \<Rightarrow>
               if GetParsedUpdateData m ''curseforge'' \<noteq> None
               then (mods, sources\<lparr>src_CurseForge := src_CurseForge sources + 1\<rparr>)
               else if URL (Download m) \<noteq> []
               then (if list_ex (\<lambda>key. key \<noteq> ''modrinth'' \<and> key \<noteq> ''curseforge'')
                          (map fst (Update m))
                     then (mods, sources\<lparr>src_Other := src_Other sources + 1\<rparr>)
                     else (mods, sources\<lparr>src_URL := src_URL sources + 1\<rparr>))
               else (mods, sources)))"

text \<open>
  The loop of \<open>getCurrentModrinthMods\<close> over \<^verbatim>\<open>index.Files\<close>: a record file that cannot
  be loaded is skipped with a warning.
\<close>

fun analyzeFiles ::
  "diff_env \<Rightarrow> disk \<Rightarrow> Index \<Rightarrow> (string \<times> ModInfo) list \<times> ModSources
     \<Rightarrow> (string \<times> ModInfo) list \<times> ModSources" where
  "analyzeFiles env d [] acc = acc"
| "analyzeFiles env d ((fileName, fileData) # rest) acc =
     (if idx_MetaFile fileData
      then (case LoadMod env d (ResolveIndexPath env fileName) of
              Inl err \<Rightarrow> analyzeFiles env d rest acc
            | Inr m \<Rightarrow> analyzeFiles env d rest (tallyMod m acc))
      else analyzeFiles env d rest acc)"

definition getCurrentModrinthMods ::
  "diff_env \<Rightarrow> disk \<Rightarrow> Index \<Rightarrow> (string \<times> ModInfo) list \<times> ModSources" where
  "getCurrentModrinthMods env d idx =
     analyzeFiles env d idx
       ([], \<lparr>src_Modrinth = 0, src_CurseForge = 0, src_URL = 0, src_Other = 0\<rparr>)"

text \<open>
  \<open>getMrpackModsWithInfo\<close>. \<open>hashToFile\<close> is the lookup in the map of that name, in which
  a later file of the manifest replaces an earlier one with the same hash; a hash that is
  not a key gives the zero value, with the empty path. \<open>projectIDs\<close> is the slice of that
  name: each project once, in the order of its first entry of \<^verbatim>\<open>versionMap\<close>. The entries
  of \<^verbatim>\<open>projectToVersionMap\<close> for a project are those of \<^verbatim>\<open>versionMap\<close> with this project,
  in order; each of them in turn is entered under the identifier of the project, so the last
  one stays.
\<close>

definition hashToFile :: "ModrinthIndexFileRef list \<Rightarrow> string \<Rightarrow> string" where
  "hashToFile files hash =
     (case find (\<lambda>file. map_of (Hashes file) ''sha512'' = Some hash) (rev files) of
        None \<Rightarrow> []
      | Some file \<Rightarrow> Path file)"

fun projectIDs :: "(string \<times> HashResponse) list \<Rightarrow> string list \<Rightarrow> string list" where
  "projectIDs [] seen = seen"
| "projectIDs ((hash, versionInfo) # rest) seen =
     (if hr_ProjectID versionInfo \<in> set seen then projectIDs rest seen
      else projectIDs rest (seen @ [hr_ProjectID versionInfo]))"

fun enterVersions ::
  "ModrinthIndexFileRef list \<Rightarrow> string \<Rightarrow> string \<Rightarrow> string \<Rightarrow> (string \<times> HashResponse) list
     \<Rightarrow> (string \<times> ModInfo) list \<Rightarrow> (string \<times> ModInfo) list" where
  "enterVersions files projectID title side [] mods = mods"
| "enterVersions files projectID title side ((hash, versionInfo) # rest) mods =
     enterVersions files projectID title side rest
       (AList.update projectID
          \<lparr>mi_ProjectID = projectID, mi_VersionID = hr_ID versionInfo, ProjectName = title,
           mi_FileName = hashToFile files hash, mi_Side = side\<rparr> mods)"

fun enterProjects ::
  "diff_env \<Rightarrow> ModrinthIndexFileRef list \<Rightarrow> (string \<times> HashResponse) list \<Rightarrow> Project list
     \<Rightarrow> (string \<times> ModInfo) list \<Rightarrow> (string \<times> ModInfo) list" where
  "enterProjects env files versionMap [] mods = mods"
| "enterProjects env files versionMap (project # rest) mods =
     (case prj_ID project of
        None \<Rightarrow> enterProjects env files versionMap rest mods
      | Some projectID \<Rightarrow>
          (let versionInfos = filter (\<lambda>(hash, versionInfo). hr_ProjectID versionInfo = projectID)
                                versionMap;
               side0 = projectSide env project;
               side = (if side0 = [] then UniversalSide else side0)
           in enterProjects env files versionMap rest
                (enterVersions files projectID (Title project) side versionInfos mods)))"

definition getMrpackModsWithInfo ::
  "diff_env \<Rightarrow> ModrinthIndexFile \<Rightarrow> string + (string \<times> ModInfo) list" where
  "getMrpackModsWithInfo env mrpackData =
     (let files = mif_Files mrpackData;
          hashes = List.map_filter (\<lambda>file. map_of (Hashes file) ''sha512'') files
      in if length hashes = 0 then Inr []
         else
           (case versionsByHash env hashes of
              Inl err \<Rightarrow> Inl (''failed to lookup versions by hash: '' @ err)
            | Inr versionMap \<Rightarrow>
                (case GetMultiple env (projectIDs versionMap []) of
                   Inl err \<Rightarrow> Inl (''failed to fetch project information in batch: '' @ err)
                 | Inr projects \<Rightarrow> Inr (enterProjects env files versionMap projects []))))"

text \<open>
  \<open>compareMods\<close>. Each of the two maps is given as the list of its entries in the order in
  which the run goes through it. \<^verbatim>\<open>strings.Compare\<close> is the order of \<^typ>\<open>string\<close>,
  lexicographic on the bytes. \<^verbatim>\<open>slices.SortFunc\<close> is modelled by the stable insertion sort
  \<^const>\<open>sort_key\<close>; the library sorts up to twelve elements by insertion, with the same
  result, and longer slices by a sort that need not keep the order of elements that compare
  equal.
\<close>

definition arrow :: string where
  "arrow = [CHR 0x20, CHR 0xE2, CHR 0x86, CHR 0x92, CHR 0x20]"

definition compareMods ::
  "(string \<times> ModInfo) list \<Rightarrow> (string \<times> ModInfo) list
     \<Rightarrow> ModInfo list \<times> ModInfo list \<times> ModInfo list" where
  "compareMods current mrpack =
     (let missing = map snd (filter (\<lambda>(projectID, m). map_of current projectID = None) mrpack);
          extra = map snd (filter (\<lambda>(projectID, m). map_of mrpack projectID = None) current);
          different =
            concat (map (\<lambda>(projectID, currentMod).
                           case map_of mrpack projectID of
                             None \<Rightarrow> []
                           | Some mrpackMod \<Rightarrow>
                               if mi_VersionID currentMod \<noteq> mi_VersionID mrpackMod
                               then [\<lparr>mi_ProjectID = projectID,
                                      mi_VersionID = mi_VersionID currentMod @ arrow
                                                       @ mi_VersionID mrpackMod,
                                      ProjectName = ProjectName currentMod,
                                      mi_FileName = [],
                                      mi_Side = mi_Side currentMod\<rparr>]
                               else [])
                      current)
      in (sort_key ProjectName missing, sort_key ProjectName extra,
          sort_key ProjectName different))"

text \<open>
  The command. Its state is the files on disk and the index in memory, \<open>None\<close> before the
  index is loaded. The outcome is \<open>DiffExit1\<close> for \<^verbatim>\<open>os.Exit(1)\<close> with the message printed,
  or the three lists and the counts that the command displays.
\<close>

record diff_world =
  filesOnDisk :: disk
  indexInMemory :: "Index option"

datatype diff_outcome =
  DiffExit1 string
| DiffShown "ModInfo list" "ModInfo list" "ModInfo list" ModSources nat

definition diffCmd :: "diff_env \<Rightarrow> string \<Rightarrow> diff_world \<Rightarrow> diff_outcome \<times> diff_world" where
  "diffCmd env mrpackFilePath w =
     (case LoadPack env (filesOnDisk w) of
        Inl err \<Rightarrow> (DiffExit1 (''Failed to load current pack: '' @ err), w)
      | Inr pack \<Rightarrow>
          (case LoadIndex env (filesOnDisk w) pack of
             Inl err \<Rightarrow> (DiffExit1 (''Failed to load pack index: '' @ err), w)
           | Inr idx \<Rightarrow>
               (let w1 = w\<lparr>indexInMemory := Some idx\<rparr>
                in case parseMrpackFile env (filesOnDisk w1) mrpackFilePath of
                     Inl err \<Rightarrow> (DiffExit1 (''Failed to parse mrpack file: '' @ err), w1)
                   | Inr mrpackData \<Rightarrow>
                       (case getCurrentModrinthMods env (filesOnDisk w1) idx of
                          (currentMods, otherSourceMods) \<Rightarrow>
                            (case getMrpackModsWithInfo env mrpackData of
                               Inl err \<Rightarrow>
                                 (DiffExit1 (''Failed to get mrpack mod info: '' @ err), w1)
                             | Inr mrpackMods \<Rightarrow>
                                 (case compareMods currentMods mrpackMods of
                                    (missing, extra, different) \<Rightarrow>
                                      (DiffShown missing extra different otherSourceMods
                                         (length mrpackMods), w1)))))))"

text \<open>
  Example inputs of the diff command: a record without update source and without download
  URL, a record with a CurseForge and a GitHub update source, and a bundle with two projects
  of the same title, in the two orders in which a run can go through the map.
\<close>

definition demoMod :: "string \<Rightarrow> (string \<times> update_doc) list \<Rightarrow> (string \<times> update_data) list \<Rightarrow> Mod" where
  "demoMod url upd parsed =
     \<lparr>metaFile = ''mods/example.pw.toml'', Name = ''Example'', FileName = ''example.jar'',
      Side = ''both'', Pin = False,
      Download = \<lparr>URL = url, DisabledClientPlatforms = [], HashFormat = ''sha256'',
                  Hash = ''00'', Mode = []\<rparr>,
      Update = upd, updateData = parsed, Option = None\<rparr>"

definition noSources :: ModSources where
  "noSources = \<lparr>src_Modrinth = 0, src_CurseForge = 0, src_URL = 0, src_Other = 0\<rparr>"

definition demoBundleMods :: "(string \<times> ModInfo) list" where
  "demoBundleMods =
     [(''AAAAAAAA'', \<lparr>mi_ProjectID = ''AAAAAAAA'', mi_VersionID = ''v1'', ProjectName = ''Zoom'',
                      mi_FileName = ''mods/zoom-a.jar'', mi_Side = ''both''\<rparr>),
      (''BBBBBBBB'', \<lparr>mi_ProjectID = ''BBBBBBBB'', mi_VersionID = ''v7'', ProjectName = ''Zoom'',
                      mi_FileName = ''mods/zoom-b.jar'', mi_Side = ''both''\<rparr>)]"

section \<open>Example runs of the import command\<close>

text \<open>
  A catalog in which every call succeeds, and a bundle whose \<open>k\<close>-th file has the hash
  \<open>demoHash k\<close> and resolves to the project \<open>demoProjectID k\<close>. The identifier of a version
  is the identifier of its project, a hyphen and a number. The record files go to the
  folder \<^verbatim>\<open>mods\<close> under the slug of the project.
\<close>

definition demoProjectID :: "nat \<Rightarrow> string" where
  "demoProjectID k = replicate (Suc k) (CHR ''p'')"

definition demoHash :: "nat \<Rightarrow> string" where
  "demoHash k = ''sha512--'' @ replicate k (CHR ''h'')"

definition demoFile :: "nat \<Rightarrow> ModrinthIndexFileRef" where
  "demoFile k =
     \<lparr>Path = ''mods/'' @ demoProjectID k @ ''.jar'', Hashes = [(''sha512'', demoHash k)],
      Env = None, Downloads = [], FileSize = 0\<rparr>"

definition demoItem :: "nat \<Rightarrow> string \<times> HashResponse" where
  "demoItem k =
     (demoHash k, \<lparr>hr_ID = demoProjectID k @ ''-1'', hr_ProjectID = demoProjectID k\<rparr>)"

definition demoProject :: "string \<Rightarrow> Project" where
  "demoProject pid =
     \<lparr>prj_ID = Some pid, Title = ''Mod '' @ pid, Slug = Some pid, ProjectType = ''mod'',
      prj_ClientSide = ''required'', prj_ServerSide = ''required''\<rparr>"

definition demoVersion :: "string \<Rightarrow> Version" where
  "demoVersion vid =
     \<lparr>ver_ID = vid, ver_ProjectID = takeWhile (\<lambda>x. x \<noteq> CHR ''-'') vid,
      ver_Files = [\<lparr>Filename = vid @ ''.jar'', file_URL = ''https://cdn.example/'' @ vid,
                    Primary = Some True\<rparr>],
      Loaders = [''fabric'']\<rparr>"

definition noWriteError :: "nat \<Rightarrow> string option" where
  "noWriteError n = None"

definition diskFull :: "nat \<Rightarrow> string option" where
  "diskFull n = Some ''no space left on device''"

definition demoEnv :: "nat \<Rightarrow> string list \<Rightarrow> (nat \<Rightarrow> string option) \<Rightarrow> import_env" where
  "demoEnv n inst werr =
     \<lparr>mrpackFiles = map demoFile [0 ..< n],
      installedProjects = inst,
      ProjectsGet = (\<lambda>c pid. Inr (demoProject pid)),
      VersionsGet = (\<lambda>c vid. Inr (demoVersion vid)),
      getSide = (\<lambda>p. ''both''),
      getBestHash = (\<lambda>f. (''sha512'', ''00'')),
      mrToMap = (\<lambda>p v. Inr [(''mod-id'', p), (''version'', v)]),
      metaFolder = ''mods'',
      metaFolderBase = [],
      getProjectTypeFolder = (\<lambda>t l c. Inr ''mods''),
      compatibleLoaders = [''fabric''],
      MetaExtension = ''.pw.toml'',
      filepath_Join = (\<lambda>parts. strings_Join (filter (\<lambda>p. p \<noteq> []) parts) ''/''),
      ModWrite = (\<lambda>m. Inr ''ab''),
      hashIndex = (\<lambda>idx. concat (map fst idx)),
      indexWriteErr = werr,
      updateIndexHashErr = noWriteError,
      packWriteErr = noWriteError\<rparr>"

definition demoState :: import_state where
  "demoState =
     \<lparr>successCount = 0, skippedCount = 0, processedCount = 0, index = [], packIndexHash = [],
      diskIndex = [], diskPackIndexHash = [], apiCalls = 0, writes = 0, slept = 0,
      refreshed = [], printed = []\<rparr>"

text \<open>Two files of the bundle that resolve to two versions of the one project \<^verbatim>\<open>p\<close>.\<close>

definition demoPair :: "(string \<times> HashResponse) list" where
  "demoPair =
     [(demoHash 0, \<lparr>hr_ID = ''p-1'', hr_ProjectID = ''p''\<rparr>),
      (demoHash 1, \<lparr>hr_ID = ''p-2'', hr_ProjectID = ''p''\<rparr>)]"

text \<open>
  A catalog that answers the first call with a rate limit and the later ones as above, and
  one that refuses every call with an error that is no rate limit.
\<close>

definition limitedOnce :: "nat \<Rightarrow> string \<Rightarrow> string + Project" where
  "limitedOnce c pid = (if c = 0 then Inl ''429 Too Many Requests'' else Inr (demoProject pid))"

definition notFound :: "nat \<Rightarrow> string \<Rightarrow> string + Project" where
  "notFound c pid = Inl ''404 Not Found''"

text \<open>
  A catalog for the diff command that answers the hash lookup with the given map and knows
  every project, the manifest of a bundle with the two files \<open>demoFile 0\<close> and
  \<open>demoFile 1\<close>, and a pack with the project \<^verbatim>\<open>p\<close> at the version \<^verbatim>\<open>p-1\<close>.
\<close>

definition demoDiffEnv :: "(string \<times> HashResponse) list \<Rightarrow> diff_env" where
  "demoDiffEnv versionMap =
     \<lparr>LoadPack = (\<lambda>d. Inr \<lparr>pack_Name = ''demo''\<rparr>),
      LoadIndex = (\<lambda>d pack. Inr []),
      ResolveIndexPath = (\<lambda>path. path),
      DecodeFile = (\<lambda>d path. Inl ''no such file''),
      Updaters = [],
      parseMrpackFile = (\<lambda>d path. Inl ''no such file''),
      versionsByHash = (\<lambda>hashes. Inr versionMap),
      GetMultiple = (\<lambda>ids. Inr (map demoProject ids)),
      projectSide = (\<lambda>project. ''both'')\<rparr>"

definition demoManifest :: ModrinthIndexFile where
  "demoManifest =
     \<lparr>mif_FormatVersion = 1, mif_Game = ''minecraft'', mif_VersionID = ''1.0'',
      mif_Name = ''Demo'', mif_Summary = [], mif_Files = [demoFile 0, demoFile 1],
      mif_Dependencies = []\<rparr>"

definition demoCurrentMods :: "(string \<times> ModInfo) list" where
  "demoCurrentMods =
     [(''p'', \<lparr>mi_ProjectID = ''p'', mi_VersionID = ''p-1'', ProjectName = ''Mod p'',
               mi_FileName = ''p.jar'', mi_Side = ''both''\<rparr>)]"

text \<open>
  A catalog that answers every call for a project but the third call of a run, which it
  refuses with a rate limit. For the first entry of a batch the third call is the fetch of
  the project inside the installation, after the fetch by the loop and the fetch of the
  version.
\<close>

definition limitedAtInstall :: "nat \<Rightarrow> string \<Rightarrow> string + Project" where
  "limitedAtInstall c pid =
     (if c = 2 then Inl ''429 Too Many Requests'' else Inr (demoProject pid))"

definition demoEnvLimitedInstall :: import_env where
  "demoEnvLimitedInstall = (demoEnv 2 [] noWriteError)\<lparr>ProjectsGet := limitedAtInstall\<rparr>"

definition demoEnvNotFound :: import_env where
  "demoEnvNotFound = (demoEnv 2 [] noWriteError)\<lparr>ProjectsGet := notFound\<rparr>"

definition demoEnvLimited :: import_env where
  "demoEnvLimited = (demoEnv 2 [] noWriteError)\<lparr>ProjectsGet := limitedOnce\<rparr>"

section \<open>Verified properties\<close>

subsection \<open>Slugified names\<close>

text \<open>
  Claim C9. \<open>SlugifyName\<close> applied to "Just Enough Items (Forge Edition) - Legacy" returns
  "just-enough-items": the name is lowered, the parenthesis and the suffix behind " - " are
  removed, the spaces become hyphens and the hyphen left at the end is stripped.
\<close>

theorem SlugifyName_just_enough_items:
  "SlugifyName ''Just Enough Items (Forge Edition) - Legacy'' = ''just-enough-items''"
  by code_simp

subsection \<open>Side from the environment of a bundle file\<close>

text \<open>
  The results of \<open>determineSideFromEnv\<close> on the other pairs of the four documented values.
\<close>

lemma determineSideFromEnv_skip:
  "determineSideFromEnv (Some \<lparr>Client = ''unsupported'', Server = ''unsupported''\<rparr>) = ([], True, [])"
  "determineSideFromEnv (Some \<lparr>Client = ''unsupported'', Server = ''unknown''\<rparr>) = ([], True, [])"
  "determineSideFromEnv (Some \<lparr>Client = ''unknown'', Server = ''unsupported''\<rparr>) = ([], True, [])"
  by (simp_all add: determineSideFromEnv_def)

lemma determineSideFromEnv_supported:
  "c \<in> {''required'', ''optional''} \<Longrightarrow> s \<in> {''required'', ''optional''} \<Longrightarrow>
     determineSideFromEnv (Some \<lparr>Client = c, Server = s\<rparr>) = (UniversalSide, False, [])"
  "c \<in> {''required'', ''optional''} \<Longrightarrow>
     determineSideFromEnv (Some \<lparr>Client = c, Server = ''unsupported''\<rparr>) = (ClientSide, False, [])"
  "s \<in> {''required'', ''optional''} \<Longrightarrow>
     determineSideFromEnv (Some \<lparr>Client = ''unsupported'', Server = s\<rparr>) = (ServerSide, False, [])"
  "c \<in> {''required'', ''optional''} \<Longrightarrow>
     fst (determineSideFromEnv (Some \<lparr>Client = c, Server = ''unknown''\<rparr>)) = ClientSide"
  "s \<in> {''required'', ''optional''} \<Longrightarrow>
     fst (determineSideFromEnv (Some \<lparr>Client = ''unknown'', Server = s\<rparr>)) = ServerSide"
  by (auto simp add: determineSideFromEnv_def)

text \<open>
  Claim C2, at the pair it names: for client "unknown" and server "unknown" the function
  returns the client side, not the universal side, with both warnings. The branch "Default to
  universal if unknown" comes after the branch of the client side, whose condition
  \<open>clientUnknown \<and> \<not> serverSupported \<and> \<not> serverUnsupported\<close> already holds.
\<close>

theorem determineSideFromEnv_unknown_unknown:
  "determineSideFromEnv (Some \<lparr>Client = ''unknown'', Server = ''unknown''\<rparr>) =
     (ClientSide, False,
      ''Unknown side compatibility: client side compatibility unknown, server side compatibility unknown'')"
  by (simp add: determineSideFromEnv_def ClientSide_def)

subsection \<open>The option block after a modify operation\<close>

lemma modifyModProperties_Option:
  "modifyModProperties flags modData = Written m \<Longrightarrow>
     Option m = modifyOption flags (Option modData)"
  by (auto simp add: modifyModProperties_def Let_def
      split: option.splits sum.splits prod.splits if_splits)

lemma modifyOption_Some:
  "flag_optional flags \<noteq> None \<or> flag_optional_description flags \<noteq> None
     \<or> flag_optional_default flags \<noteq> None \<Longrightarrow>
   modifyOption flags opt0 = Some b \<Longrightarrow> Optional b \<or> Description b \<noteq> [] \<or> Default b"
  unfolding modifyOption_def Let_def by (simp split: if_splits)

lemma encodeOption_default_only:
  "encodeOption opt = Some [(''optional'', ''false'')] \<Longrightarrow>
     opt = Some \<lparr>Optional = False, Description = [], Default = False\<rparr>"
  by (auto simp add: encodeOption_def showBool_def split: option.splits if_splits)

text \<open>
  Claim C6, as stated, fails: a modify operation that changes only the pin leaves an option
  block with the three default values in the record it writes, and the encoder writes the
  table with \<^verbatim>\<open>optional = false\<close>. The removal of the block is inside the branch taken only
  when one of the three option flags was changed.
\<close>

theorem modify_keeps_default_option_counterexample:
  "modifyModProperties
     \<lparr>flag_side = None, flag_disabled_client_platforms = None, flag_pin = Some True,
      flag_optional = None, flag_optional_description = None, flag_optional_default = None\<rparr>
     \<lparr>metaFile = ''mods/jei.pw.toml'', Name = ''JEI'', FileName = ''jei.jar'', Side = ''both'',
      Pin = False,
      Download = \<lparr>URL = ''https://example.org/jei.jar'', DisabledClientPlatforms = [],
                  HashFormat = ''sha512'', Hash = ''00'', Mode = []\<rparr>,
      Update = [], updateData = [],
      Option = Some \<lparr>Optional = False, Description = [], Default = False\<rparr>\<rparr>
   = Written
     \<lparr>metaFile = ''mods/jei.pw.toml'', Name = ''JEI'', FileName = ''jei.jar'', Side = ''both'',
      Pin = True,
      Download = \<lparr>URL = ''https://example.org/jei.jar'', DisabledClientPlatforms = [],
                  HashFormat = ''sha512'', Hash = ''00'', Mode = []\<rparr>,
      Update = [], updateData = [],
      Option = Some \<lparr>Optional = False, Description = [], Default = False\<rparr>\<rparr>
   \<and> encodeOption (Some \<lparr>Optional = False, Description = [], Default = False\<rparr>)
       = Some [(''optional'', ''false'')]"
  by (simp add: modifyModProperties_def modifyOption_def encodeOption_def showBool_def)

text \<open>
  Claim C6, amended: when a modify operation changes at least one of the flags
  \<^verbatim>\<open>--optional\<close>, \<^verbatim>\<open>--optional-description\<close> and \<^verbatim>\<open>--optional-default\<close>, the record it
  writes never has an option block with optional false, an empty description and default
  false: such a block has been removed, and the written record has no table with the default
  values only.
\<close>

theorem modify_option_normalized:
  assumes "modifyModProperties flags modData = Written m"
    and "flag_optional flags \<noteq> None \<or> flag_optional_description flags \<noteq> None
           \<or> flag_optional_default flags \<noteq> None"
  shows "Option m \<noteq> Some \<lparr>Optional = False, Description = [], Default = False\<rparr>
         \<and> encodeOption (Option m) \<noteq> Some [(''optional'', ''false'')]"
proof -
  have eq: "Option m = modifyOption flags (Option modData)"
    using assms(1) by (rule modifyModProperties_Option)
  have a: "Option m \<noteq> Some \<lparr>Optional = False, Description = [], Default = False\<rparr>"
  proof
    assume "Option m = Some \<lparr>Optional = False, Description = [], Default = False\<rparr>"
    with eq have "modifyOption flags (Option modData)
                    = Some \<lparr>Optional = False, Description = [], Default = False\<rparr>"
      by simp
    from modifyOption_Some [OF assms(2) this] show False by simp
  qed
  with encodeOption_default_only [of "Option m"] show ?thesis by blast
qed

theorem modify_option_normalized_witness:
  "modifyModProperties
     \<lparr>flag_side = None, flag_disabled_client_platforms = None, flag_pin = None,
      flag_optional = Some False, flag_optional_description = None, flag_optional_default = None\<rparr>
     \<lparr>metaFile = ''mods/jei.pw.toml'', Name = ''JEI'', FileName = ''jei.jar'', Side = ''both'',
      Pin = False,
      Download = \<lparr>URL = ''https://example.org/jei.jar'', DisabledClientPlatforms = [],
                  HashFormat = ''sha512'', Hash = ''00'', Mode = []\<rparr>,
      Update = [], updateData = [],
      Option = Some \<lparr>Optional = True, Description = [], Default = False\<rparr>\<rparr>
   = Written
     \<lparr>metaFile = ''mods/jei.pw.toml'', Name = ''JEI'', FileName = ''jei.jar'', Side = ''both'',
      Pin = False,
      Download = \<lparr>URL = ''https://example.org/jei.jar'', DisabledClientPlatforms = [],
                  HashFormat = ''sha512'', Hash = ''00'', Mode = []\<rparr>,
      Update = [], updateData = [], Option = None\<rparr>
   \<and> encodeOption None \<noteq> Some [(''optional'', ''false'')]"
proof -
  have w: "modifyModProperties
     \<lparr>flag_side = None, flag_disabled_client_platforms = None, flag_pin = None,
      flag_optional = Some False, flag_optional_description = None, flag_optional_default = None\<rparr>
     \<lparr>metaFile = ''mods/jei.pw.toml'', Name = ''JEI'', FileName = ''jei.jar'', Side = ''both'',
      Pin = False,
      Download = \<lparr>URL = ''https://example.org/jei.jar'', DisabledClientPlatforms = [],
                  HashFormat = ''sha512'', Hash = ''00'', Mode = []\<rparr>,
      Update = [], updateData = [],
      Option = Some \<lparr>Optional = True, Description = [], Default = False\<rparr>\<rparr>
   = Written
     \<lparr>metaFile = ''mods/jei.pw.toml'', Name = ''JEI'', FileName = ''jei.jar'', Side = ''both'',
      Pin = False,
      Download = \<lparr>URL = ''https://example.org/jei.jar'', DisabledClientPlatforms = [],
                  HashFormat = ''sha512'', Hash = ''00'', Mode = []\<rparr>,
      Update = [], updateData = [], Option = None\<rparr>"
    by (simp add: modifyModProperties_def modifyOption_def)
  from modify_option_normalized [OF w] w show ?thesis by simp
qed


subsection \<open>The import loop: what an installation changes\<close>

lemma saveProgress_frame:
  "successCount (saveProgress env st) = successCount st"
  "skippedCount (saveProgress env st) = skippedCount st"
  "processedCount (saveProgress env st) = processedCount st"
  "index (saveProgress env st) = index st"
  "refreshed (saveProgress env st) = refreshed st"
  "apiCalls (saveProgress env st) = apiCalls st"
  by (simp_all add: saveProgress_def Let_def split: option.splits)

lemma saveProgress_diskIndex:
  "diskIndex (saveProgress env st) =
     (if successCount st > 0 \<and> indexWriteErr env (writes st) = None then index st else diskIndex st)"
  by (simp add: saveProgress_def Let_def split: option.splits)

lemma createFileMetaWithSide_frame:
  assumes "createFileMetaWithSide env project version file side st = (r, st')"
  shows "successCount st' = successCount st \<and> skippedCount st' = skippedCount st
       \<and> processedCount st' = processedCount st \<and> diskIndex st' = diskIndex st
       \<and> diskPackIndexHash st' = diskPackIndexHash st \<and> writes st' = writes st
       \<and> apiCalls st' = apiCalls st
       \<and> (case r of
            InstallOK \<Rightarrow>
              (\<exists>path h. index st' = RefreshFileWithHash (index st) path ''sha256'' h True
                        \<and> refreshed st' = refreshed st @ [path])
          | InstallError err \<Rightarrow> index st' = index st \<and> refreshed st' = refreshed st
          | InstallPanic \<Rightarrow> index st' = index st \<and> refreshed st' = refreshed st)"
  using assms unfolding createFileMetaWithSide_def Let_def
  by (auto split: sum.splits prod.splits if_splits option.splits)

lemma installVersionWithSide_frame:
  assumes "installVersionWithSide env project version fn side st = (r, st')"
  shows "successCount st' = successCount st \<and> skippedCount st' = skippedCount st
       \<and> processedCount st' = processedCount st \<and> diskIndex st' = diskIndex st
       \<and> diskPackIndexHash st' = diskPackIndexHash st \<and> writes st' = writes st
       \<and> apiCalls st' = apiCalls st
       \<and> (case r of
            InstallOK \<Rightarrow>
              (\<exists>path h. index st' = RefreshFileWithHash (index st) path ''sha256'' h True
                        \<and> refreshed st' = refreshed st @ [path])
          | InstallError err \<Rightarrow> index st' = index st \<and> refreshed st' = refreshed st
          | InstallPanic \<Rightarrow> index st' = index st \<and> refreshed st' = refreshed st)"
proof (cases "if fn = []
            then (case findPrimaryFile version (compatibleLoaders env) of
                    None \<Rightarrow> Inl ''no compatible files found for this version''
                  | Some file \<Rightarrow> Inr file)
            else (case find (\<lambda>f. Filename f = fn) (ver_Files version) of
                    None \<Rightarrow> Inl (''file with name '' @ fn @ '' not found'')
                  | Some file \<Rightarrow> Inr file)")
  case (Inl e)
  with assms show ?thesis by (auto simp add: installVersionWithSide_def)
next
  case (Inr f)
  with assms have "createFileMetaWithSide env project version f side st = (r, st')"
    by (simp add: installVersionWithSide_def)
  then show ?thesis by (rule createFileMetaWithSide_frame)
qed

lemma installVersionByIdWithSide_frame:
  assumes "installVersionByIdWithSide env v fn side st = (r, st')"
  shows "successCount st' = successCount st \<and> skippedCount st' = skippedCount st
       \<and> processedCount st' = processedCount st \<and> diskIndex st' = diskIndex st
       \<and> diskPackIndexHash st' = diskPackIndexHash st \<and> writes st' = writes st
       \<and> (case r of
            InstallOK \<Rightarrow>
              (\<exists>path h. index st' = RefreshFileWithHash (index st) path ''sha256'' h True
                        \<and> refreshed st' = refreshed st @ [path])
          | InstallError err \<Rightarrow> index st' = index st \<and> refreshed st' = refreshed st
          | InstallPanic \<Rightarrow> index st' = index st \<and> refreshed st' = refreshed st)"
proof (cases "VersionsGet env (apiCalls st) v")
  case (Inl e)
  with assms show ?thesis by (auto simp add: installVersionByIdWithSide_def)
next
  case (Inr version)
  show ?thesis
  proof (cases "ProjectsGet env (apiCalls st + 1) (ver_ProjectID version)")
    case (Inl e)
    with Inr assms show ?thesis by (auto simp add: installVersionByIdWithSide_def)
  next
    case (Inr project)
    with \<open>VersionsGet env (apiCalls st) v = Inr version\<close> assms
    have "installVersionWithSide env project version fn side (st\<lparr>apiCalls := apiCalls st + 2\<rparr>) = (r, st')"
      by (simp add: installVersionByIdWithSide_def)
    from installVersionWithSide_frame [OF this] show ?thesis by (cases r) auto
  qed
qed

lemma RefreshFileWithHash_keys:
  "fst ` set (RefreshFileWithHash idx path format h m) = insert path (fst ` set idx)"
  by (simp add: RefreshFileWithHash_def dom_update)

lemma importStep_inv:
  assumes ok: "\<forall>n. indexWriteErr env n = None"
    and i: "checkpointInv env st"
    and s: "importStep env tm item st = Completed st' \<or> importStep env tm item st = Panicked st'"
  shows "checkpointInv env st'"
proof (cases "findFileRef (mrpackFiles env) (fst item)")
  case None
  with s i show ?thesis
    by (auto simp add: importStep_def Let_def checkpointInv_def split: if_splits)
next
  case (Some fileRef)
  show ?thesis
  proof (cases "hr_ProjectID (snd item) \<in> set (installedProjects env)")
    case True
    with Some s i show ?thesis
      by (auto simp add: importStep_def Let_def checkpointInv_def)
  next
    case False
    obtain res calls sl where g: "getProjectWithRateLimit (ProjectsGet env) (hr_ProjectID (snd item))
        (apiCalls st + 0) = (res, calls, sl)"
      by (cases "getProjectWithRateLimit (ProjectsGet env) (hr_ProjectID (snd item)) (apiCalls st + 0)") auto
    show ?thesis
    proof (cases res)
      case (Inl err)
      with Some False g s i show ?thesis
        by (auto simp add: importStep_def Let_def checkpointInv_def)
    next
      case (Inr project)
      define side where "side = (if getSide env project = [] then UniversalSide else getSide env project)"
      define st2 where "st2 = st\<lparr>processedCount := processedCount st + 1,
          apiCalls := calls, slept := slept st + sl,
          printed := (printed st @ map RateLimited [2 ..< 2 + sl div 60])
             @ (if getSide env project = [] then [WarnNoSide (Title project)] else [])
             @ [Installing (Title project) (processedCount st + 1) tm (hr_ID (snd item)) side]\<rparr>"
      obtain r st3 where inst: "installVersionByIdWithSide env (hr_ID (snd item)) [] side st2 = (r, st3)"
        by (cases "installVersionByIdWithSide env (hr_ID (snd item)) [] side st2") auto
      note fr = installVersionByIdWithSide_frame [OF inst]
      have i2: "checkpointInv env st2" using i by (simp add: checkpointInv_def st2_def)
      show ?thesis
      proof (cases r)
        case (InstallError err)
        with Some False g Inr s inst fr i2 show ?thesis
          by (auto simp add: importStep_def Let_def checkpointInv_def st2_def side_def)
      next
        case InstallPanic
        with Some False g Inr s inst fr i2 show ?thesis
          by (auto simp add: importStep_def Let_def checkpointInv_def st2_def side_def)
      next
        case InstallOK
        from fr InstallOK obtain path h where
          idx: "index st3 = RefreshFileWithHash (index st2) path ''sha256'' h True"
          and rf: "refreshed st3 = refreshed st2 @ [path]"
          and sc: "successCount st3 = successCount st2"
          and dk: "diskIndex st3 = diskIndex st2" by auto
        define st4 where "st4 = st3\<lparr>successCount := successCount st3 + 1\<rparr>"
        have len4: "length (refreshed st4) = successCount st4"
          using i2 rf sc by (simp add: st4_def checkpointInv_def)
        have sub4: "set (refreshed st4) \<subseteq> fst ` set (index st4)"
          using i2 rf idx by (auto simp add: st4_def checkpointInv_def RefreshFileWithHash_keys)
        have res: "st' = (if successCount st4 mod 10 = 0
                          then saveProgress env (st4\<lparr>printed := printed st4 @ [CheckpointMsg (successCount st4)]\<rparr>)
                          else st4)"
          using Some False g Inr s inst InstallOK
          by (auto simp add: importStep_def Let_def st2_def side_def st4_def)
        show ?thesis
        proof (cases "successCount st4 mod 10 = 0")
          case True
          have pos: "successCount st4 > 0" by (simp add: st4_def)
          from True res have "st' = saveProgress env (st4\<lparr>printed := printed st4 @ [CheckpointMsg (successCount st4)]\<rparr>)"
            by simp
          with ok pos len4 sub4 show ?thesis
            by (auto simp add: checkpointInv_def saveProgress_frame saveProgress_diskIndex dest: in_set_takeD)
        next
          case False
          then have d: "successCount st4 div 10 = successCount st2 div 10"
            using sc by (simp add: st4_def) presburger
          have "take (successCount st2 div 10 * 10) (refreshed st4) = take (successCount st2 div 10 * 10) (refreshed st2)"
            using i2 rf by (simp add: st4_def checkpointInv_def) 
          with False res d len4 sub4 i2 dk show ?thesis
            by (simp add: checkpointInv_def st4_def)
        qed
      qed
    qed
  qed
qed


lemma importLoop_inv:
  assumes ok: "\<forall>n. indexWriteErr env n = None"
  shows "checkpointInv env st \<Longrightarrow> checkpointInv env (resultState (importLoop env tm items st))"
proof (induction items arbitrary: st)
  case Nil
  then show ?case by (simp add: resultState_def)
next
  case (Cons item items)
  show ?case
  proof (cases "importStep env tm item st")
    case (Completed st')
    with ok Cons.prems have "checkpointInv env st'" using importStep_inv by blast
    with Cons.IH Completed show ?thesis by simp
  next
    case (Panicked st')
    with ok Cons.prems have "checkpointInv env st'" using importStep_inv by blast
    with Panicked show ?thesis by (simp add: resultState_def)
  qed
qed


subsection \<open>Fetching project details under a rate limit\<close>

lemma getProjectWithRateLimit_unfold:
  "getProjectWithRateLimit Get p c =
     (case Get c p of
        Inr prj \<Rightarrow> (Inr prj, c + 1, 0)
      | Inl e1 \<Rightarrow>
          if containsAny e1 rateLimitIndicators then
            (case Get (c + 1) p of
               Inr prj \<Rightarrow> (Inr prj, c + 2, 60)
             | Inl e2 \<Rightarrow>
                 if containsAny e2 rateLimitIndicators then
                   (case Get (c + 2) p of
                      Inr prj \<Rightarrow> (Inr prj, c + 3, 120)
                    | Inl e3 \<Rightarrow> (Inl e3, c + 3, 120))
                 else (Inl e2, c + 2, 60))
          else (Inl e1, c + 1, 0))"
  unfolding getProjectWithRateLimit_def
  apply (subst getProjectLoop.simps)
  apply (subst getProjectLoop.simps)
  apply (subst getProjectLoop.simps)
  apply (simp add: maxRetries_def Let_def split: sum.splits)
  done

lemma getProjectWithRateLimit_facts:
  assumes "getProjectWithRateLimit Get p c = (res, c', sl)"
  shows "c < c' \<and> c' \<le> c + 3 \<and> sl = 60 * (c' - c - 1) \<and> res = Get (c' - 1) p
         \<and> (\<forall>k < c' - c - 1. \<exists>e. Get (c + k) p = Inl e \<and> containsAny e rateLimitIndicators)
         \<and> (c' < c + 3 \<longrightarrow> (case res of Inr prj \<Rightarrow> True | Inl e \<Rightarrow> \<not> containsAny e rateLimitIndicators))
         \<and> (\<forall>e. Get c p = Inl e \<and> \<not> containsAny e rateLimitIndicators
                \<longrightarrow> res = Inl e \<and> c' = c + 1 \<and> sl = 0)"
  using assms unfolding getProjectWithRateLimit_unfold
  by (auto split: sum.splits if_splits simp add: less_Suc_eq numeral_2_eq_2 numeral_3_eq_3)

lemma importStep_fetch_failed:
  assumes g: "getProjectWithRateLimit (ProjectsGet env) (hr_ProjectID (snd item)) (apiCalls st)
                = (Inl e, calls, sl)"
    and found: "findFileRef (mrpackFiles env) (fst item) \<noteq> None"
    and new: "hr_ProjectID (snd item) \<notin> set (installedProjects env)"
  shows "importStep env tm item st =
           Completed (st\<lparr>processedCount := processedCount st + 1, apiCalls := calls,
                         slept := slept st + sl,
                         printed := printed st @ map RateLimited [2 ..< 2 + sl div 60]
                                      @ [FailedProjectInfo (hr_ID (snd item)) e]\<rparr>)"
  using assms by (auto simp add: importStep_def Let_def)

lemma importStep_install_fetch_failed:
  assumes g: "getProjectWithRateLimit (ProjectsGet env) (hr_ProjectID (snd item)) (apiCalls st)
                = (Inr project, calls, sl)"
    and found: "findFileRef (mrpackFiles env) (fst item) \<noteq> None"
    and new: "hr_ProjectID (snd item) \<notin> set (installedProjects env)"
    and v: "VersionsGet env calls (hr_ID (snd item)) = Inr version"
    and p: "ProjectsGet env (calls + 1) (ver_ProjectID version) = Inl e"
  shows "importStep env tm item st =
           Completed (st\<lparr>processedCount := processedCount st + 1, apiCalls := calls + 2,
                         slept := slept st + sl,
                         printed := printed st @ map RateLimited [2 ..< 2 + sl div 60]
                           @ (if getSide env project = [] then [WarnNoSide (Title project)] else [])
                           @ [Installing (Title project) (processedCount st + 1) tm
                                (hr_ID (snd item))
                                (if getSide env project = [] then UniversalSide
                                 else getSide env project),
                              FailedInstall (Title project) (hr_ID (snd item))
                                (''failed to get project info: '' @ e)]\<rparr>)"
  using assms
  by (auto simp add: importStep_def installVersionByIdWithSide_def Let_def)

lemma containsAny_404: "containsAny ''404 Not Found'' rateLimitIndicators = False"
  by code_simp

lemma containsAny_429: "containsAny ''429 Too Many Requests'' rateLimitIndicators = True"
  by code_simp

text \<open>
  Claim C5, as stated, fails: an installation fetches the details of its project a second
  time, inside \<open>installVersionByIdWithSide\<close>, with a single call. When the catalog refuses
  that call with a rate limit, the installation fails at once: the run has made three calls
  (the fetch by the loop, the version, the project), has not slept, and a fourth call, which
  would have succeeded, is never made.
\<close>

theorem project_fetch_in_install_counterexample:
  "containsAny ''429 Too Many Requests'' rateLimitIndicators
   \<and> ProjectsGet demoEnvLimitedInstall 3 ''p'' = Inr (demoProject ''p'')
   \<and> importStep demoEnvLimitedInstall 2 (demoPair ! 0) demoState =
       Completed (demoState\<lparr>processedCount := 1, apiCalls := 3,
          printed := [Installing ''Mod p'' 1 2 ''p-1'' ''both'',
                      FailedInstall ''Mod p'' ''p-1''
                        ''failed to get project info: 429 Too Many Requests'']\<rparr>)
   \<and> slept (demoState\<lparr>processedCount := 1, apiCalls := 3,
          printed := [Installing ''Mod p'' 1 2 ''p-1'' ''both'',
                      FailedInstall ''Mod p'' ''p-1''
                        ''failed to get project info: 429 Too Many Requests'']\<rparr>) = 0"
  by code_simp

text \<open>
  Claim C5, amended: the fetch of project details that the loop makes through
  \<open>getProjectWithRateLimit\<close> makes at most three calls and sleeps 60 seconds between two
  calls; every call but the last has failed with an error that \<open>containsAny\<close> takes for a
  rate limit, and the fetch stops before the third call only on success or on another error.
  The value returned is the answer to the last call, so an error that is no rate limit is
  returned at once, after one call and no sleep. When the fetch returns an error for a file
  of the manifest whose project is not installed, the iteration completes with the counters
  of installed and skipped files and both indexes unchanged, and the loop goes on with the
  remaining entries. The second fetch of the project, inside the installation, is one call
  without retry or sleep: whatever its error, the installation fails with it, the iteration
  completes with the same counters and indexes, and the loop goes on.
\<close>

theorem project_fetch_retry_policy:
  assumes g: "getProjectWithRateLimit (ProjectsGet env) (hr_ProjectID (snd item)) (apiCalls st)
                = (res, calls, sl)"
  shows "apiCalls st < calls \<and> calls \<le> apiCalls st + 3
       \<and> sl = 60 * (calls - apiCalls st - 1)
       \<and> res = ProjectsGet env (calls - 1) (hr_ProjectID (snd item))
       \<and> (\<forall>k < calls - apiCalls st - 1.
             \<exists>e. ProjectsGet env (apiCalls st + k) (hr_ProjectID (snd item)) = Inl e
                  \<and> containsAny e rateLimitIndicators)
       \<and> (calls < apiCalls st + 3 \<longrightarrow>
             (case res of Inr prj \<Rightarrow> True | Inl e \<Rightarrow> \<not> containsAny e rateLimitIndicators))
       \<and> (\<forall>e. ProjectsGet env (apiCalls st) (hr_ProjectID (snd item)) = Inl e
                 \<and> \<not> containsAny e rateLimitIndicators
              \<longrightarrow> res = Inl e \<and> calls = apiCalls st + 1 \<and> sl = 0)
       \<and> (\<forall>e. res = Inl e \<and> findFileRef (mrpackFiles env) (fst item) \<noteq> None
                 \<and> hr_ProjectID (snd item) \<notin> set (installedProjects env)
              \<longrightarrow> (\<exists>st'. importStep env tm item st = Completed st'
                     \<and> successCount st' = successCount st \<and> skippedCount st' = skippedCount st
                     \<and> processedCount st' = processedCount st + 1
                     \<and> index st' = index st \<and> diskIndex st' = diskIndex st
                     \<and> importLoop env tm (item # items) st = importLoop env tm items st'))
       \<and> (\<forall>project version e.
              res = Inr project \<and> findFileRef (mrpackFiles env) (fst item) \<noteq> None
                 \<and> hr_ProjectID (snd item) \<notin> set (installedProjects env)
                 \<and> VersionsGet env calls (hr_ID (snd item)) = Inr version
                 \<and> ProjectsGet env (calls + 1) (ver_ProjectID version) = Inl e
              \<longrightarrow> (\<exists>st'. importStep env tm item st = Completed st'
                     \<and> successCount st' = successCount st \<and> skippedCount st' = skippedCount st
                     \<and> processedCount st' = processedCount st + 1
                     \<and> index st' = index st \<and> diskIndex st' = diskIndex st
                     \<and> apiCalls st' = calls + 2 \<and> slept st' = slept st + sl
                     \<and> last (printed st') = FailedInstall (Title project) (hr_ID (snd item))
                                               (''failed to get project info: '' @ e)
                     \<and> importLoop env tm (item # items) st = importLoop env tm items st'))"
proof -
  note f = getProjectWithRateLimit_facts [OF g]
  have inst: "\<forall>project version e.
              res = Inr project \<and> findFileRef (mrpackFiles env) (fst item) \<noteq> None
                 \<and> hr_ProjectID (snd item) \<notin> set (installedProjects env)
                 \<and> VersionsGet env calls (hr_ID (snd item)) = Inr version
                 \<and> ProjectsGet env (calls + 1) (ver_ProjectID version) = Inl e
              \<longrightarrow> (\<exists>st'. importStep env tm item st = Completed st'
                     \<and> successCount st' = successCount st \<and> skippedCount st' = skippedCount st
                     \<and> processedCount st' = processedCount st + 1
                     \<and> index st' = index st \<and> diskIndex st' = diskIndex st
                     \<and> apiCalls st' = calls + 2 \<and> slept st' = slept st + sl
                     \<and> last (printed st') = FailedInstall (Title project) (hr_ID (snd item))
                                               (''failed to get project info: '' @ e)
                     \<and> importLoop env tm (item # items) st = importLoop env tm items st')"
  proof (intro allI impI)
    fix project version e
    assume a: "res = Inr project \<and> findFileRef (mrpackFiles env) (fst item) \<noteq> None
                 \<and> hr_ProjectID (snd item) \<notin> set (installedProjects env)
                 \<and> VersionsGet env calls (hr_ID (snd item)) = Inr version
                 \<and> ProjectsGet env (calls + 1) (ver_ProjectID version) = Inl e"
    with g have g': "getProjectWithRateLimit (ProjectsGet env) (hr_ProjectID (snd item)) (apiCalls st)
                = (Inr project, calls, sl)" by simp
    define st1 where "st1 = st\<lparr>processedCount := processedCount st + 1, apiCalls := calls + 2,
                         slept := slept st + sl,
                         printed := printed st @ map RateLimited [2 ..< 2 + sl div 60]
                           @ (if getSide env project = [] then [WarnNoSide (Title project)] else [])
                           @ [Installing (Title project) (processedCount st + 1) tm
                                (hr_ID (snd item))
                                (if getSide env project = [] then UniversalSide
                                 else getSide env project),
                              FailedInstall (Title project) (hr_ID (snd item))
                                (''failed to get project info: '' @ e)]\<rparr>"
    from a have s: "importStep env tm item st = Completed st1"
      unfolding st1_def using importStep_install_fetch_failed [OF g'] by blast
    have l: "importLoop env tm (item # items) st = importLoop env tm items st1"
      by (simp only: importLoop.simps s loop_result.case)
    have "successCount st1 = successCount st \<and> skippedCount st1 = skippedCount st
            \<and> processedCount st1 = processedCount st + 1
            \<and> index st1 = index st \<and> diskIndex st1 = diskIndex st
            \<and> apiCalls st1 = calls + 2 \<and> slept st1 = slept st + sl
            \<and> last (printed st1) = FailedInstall (Title project) (hr_ID (snd item))
                                               (''failed to get project info: '' @ e)"
      by (simp add: st1_def)
    with s l
    show "\<exists>st'. importStep env tm item st = Completed st'
                     \<and> successCount st' = successCount st \<and> skippedCount st' = skippedCount st
                     \<and> processedCount st' = processedCount st + 1
                     \<and> index st' = index st \<and> diskIndex st' = diskIndex st
                     \<and> apiCalls st' = calls + 2 \<and> slept st' = slept st + sl
                     \<and> last (printed st') = FailedInstall (Title project) (hr_ID (snd item))
                                               (''failed to get project info: '' @ e)
                     \<and> importLoop env tm (item # items) st = importLoop env tm items st'"
      by blast
  qed
  have last: "\<forall>e. res = Inl e \<and> findFileRef (mrpackFiles env) (fst item) \<noteq> None
                 \<and> hr_ProjectID (snd item) \<notin> set (installedProjects env)
              \<longrightarrow> (\<exists>st'. importStep env tm item st = Completed st'
                     \<and> successCount st' = successCount st \<and> skippedCount st' = skippedCount st
                     \<and> processedCount st' = processedCount st + 1
                     \<and> index st' = index st \<and> diskIndex st' = diskIndex st
                     \<and> importLoop env tm (item # items) st = importLoop env tm items st')"
  proof (intro allI impI)
    fix e
    assume a: "res = Inl e \<and> findFileRef (mrpackFiles env) (fst item) \<noteq> None
                 \<and> hr_ProjectID (snd item) \<notin> set (installedProjects env)"
    with g have g': "getProjectWithRateLimit (ProjectsGet env) (hr_ProjectID (snd item)) (apiCalls st)
                = (Inl e, calls, sl)" by simp
    define st1 where "st1 = st\<lparr>processedCount := processedCount st + 1, apiCalls := calls,
                         slept := slept st + sl,
                         printed := printed st @ map RateLimited [2 ..< 2 + sl div 60]
                                      @ [FailedProjectInfo (hr_ID (snd item)) e]\<rparr>"
    from a have s: "importStep env tm item st = Completed st1"
      unfolding st1_def using importStep_fetch_failed [OF g'] by blast
    have l: "importLoop env tm (item # items) st = importLoop env tm items st1"
      by (simp only: importLoop.simps s loop_result.case)
    have "successCount st1 = successCount st \<and> skippedCount st1 = skippedCount st
            \<and> processedCount st1 = processedCount st + 1
            \<and> index st1 = index st \<and> diskIndex st1 = diskIndex st"
      by (simp add: st1_def)
    with s l
    show "\<exists>st'. importStep env tm item st = Completed st'
                     \<and> successCount st' = successCount st \<and> skippedCount st' = skippedCount st
                     \<and> processedCount st' = processedCount st + 1
                     \<and> index st' = index st \<and> diskIndex st' = diskIndex st
                     \<and> importLoop env tm (item # items) st = importLoop env tm items st'"
      by blast
  qed
  from f last inst show ?thesis by (elim conjE) (intro conjI; assumption)
qed

theorem project_fetch_retry_policy_witness:
  "getProjectWithRateLimit (ProjectsGet demoEnvNotFound) (hr_ProjectID (snd (hd demoPair)))
      (apiCalls demoState) = (Inl ''404 Not Found'', 1, 0)
   \<and> ProjectsGet demoEnvNotFound (apiCalls demoState) (hr_ProjectID (snd (hd demoPair)))
       = Inl ''404 Not Found''
   \<and> \<not> containsAny ''404 Not Found'' rateLimitIndicators
   \<and> findFileRef (mrpackFiles demoEnvNotFound) (fst (hd demoPair)) \<noteq> None
   \<and> hr_ProjectID (snd (hd demoPair)) \<notin> set (installedProjects demoEnvNotFound)
   \<and> (\<exists>st'. importStep demoEnvNotFound 2 (hd demoPair) demoState = Completed st'
          \<and> successCount st' = 0 \<and> skippedCount st' = 0 \<and> processedCount st' = 1
          \<and> index st' = [] \<and> diskIndex st' = []
          \<and> importLoop demoEnvNotFound 2 (hd demoPair # tl demoPair) demoState
              = importLoop demoEnvNotFound 2 (tl demoPair) st')
   \<and> getProjectWithRateLimit (ProjectsGet demoEnvLimited) (hr_ProjectID (snd (hd demoPair)))
       (apiCalls demoState) = (Inr (demoProject ''p''), 2, 60)
   \<and> (0::nat) < 2 - apiCalls demoState - 1
   \<and> (\<exists>e. ProjectsGet demoEnvLimited (apiCalls demoState + 0) (hr_ProjectID (snd (hd demoPair)))
              = Inl e \<and> containsAny e rateLimitIndicators)
   \<and> getProjectWithRateLimit (ProjectsGet demoEnvLimitedInstall)
        (hr_ProjectID (snd (hd demoPair))) (apiCalls demoState) = (Inr (demoProject ''p''), 1, 0)
   \<and> findFileRef (mrpackFiles demoEnvLimitedInstall) (fst (hd demoPair)) \<noteq> None
   \<and> hr_ProjectID (snd (hd demoPair)) \<notin> set (installedProjects demoEnvLimitedInstall)
   \<and> VersionsGet demoEnvLimitedInstall 1 (hr_ID (snd (hd demoPair))) = Inr (demoVersion ''p-1'')
   \<and> ProjectsGet demoEnvLimitedInstall (1 + 1) (ver_ProjectID (demoVersion ''p-1''))
        = Inl ''429 Too Many Requests''
   \<and> (\<exists>st'. importStep demoEnvLimitedInstall 2 (hd demoPair) demoState = Completed st'
          \<and> successCount st' = 0 \<and> skippedCount st' = 0 \<and> processedCount st' = 1
          \<and> index st' = [] \<and> diskIndex st' = []
          \<and> apiCalls st' = 3 \<and> slept st' = 0
          \<and> last (printed st') = FailedInstall (Title (demoProject ''p''))
                 (hr_ID (snd (hd demoPair))) ''failed to get project info: 429 Too Many Requests''
          \<and> importLoop demoEnvLimitedInstall 2 (hd demoPair # tl demoPair) demoState
              = importLoop demoEnvLimitedInstall 2 (tl demoPair) st')"
proof -
  have g: "getProjectWithRateLimit (ProjectsGet demoEnvNotFound) (hr_ProjectID (snd (hd demoPair)))
      (apiCalls demoState) = (Inl ''404 Not Found'', 1, 0)"
    by (simp add: demoEnvNotFound_def demoEnv_def demoPair_def demoState_def
        getProjectWithRateLimit_unfold notFound_def containsAny_404)
  have a: "ProjectsGet demoEnvNotFound (apiCalls demoState) (hr_ProjectID (snd (hd demoPair)))
       = Inl ''404 Not Found''"
    by (simp add: demoEnvNotFound_def demoEnv_def notFound_def)
  have b: "\<not> containsAny ''404 Not Found'' rateLimitIndicators"
    by (simp add: containsAny_404)
  have c: "findFileRef (mrpackFiles demoEnvNotFound) (fst (hd demoPair)) \<noteq> None"
    by code_simp
  have d: "hr_ProjectID (snd (hd demoPair)) \<notin> set (installedProjects demoEnvNotFound)"
    by (simp add: demoEnvNotFound_def demoEnv_def)
  have z: "successCount demoState = 0 \<and> skippedCount demoState = 0 \<and> processedCount demoState = 0
      \<and> index demoState = [] \<and> diskIndex demoState = [] \<and> apiCalls demoState = 0"
    by (simp add: demoState_def)
  note t = project_fetch_retry_policy [OF g, of 2 "tl demoPair"]
  from t c d have e: "\<exists>st'. importStep demoEnvNotFound 2 (hd demoPair) demoState = Completed st'
          \<and> successCount st' = successCount demoState \<and> skippedCount st' = skippedCount demoState
          \<and> processedCount st' = processedCount demoState + 1
          \<and> index st' = index demoState \<and> diskIndex st' = diskIndex demoState
          \<and> importLoop demoEnvNotFound 2 (hd demoPair # tl demoPair) demoState
              = importLoop demoEnvNotFound 2 (tl demoPair) st'"
    by blast
  have g2: "getProjectWithRateLimit (ProjectsGet demoEnvLimited) (hr_ProjectID (snd (hd demoPair)))
       (apiCalls demoState) = (Inr (demoProject ''p''), 2, 60)"
    by (simp add: demoEnvLimited_def demoEnv_def demoPair_def demoState_def
        getProjectWithRateLimit_unfold limitedOnce_def containsAny_429)
  note t2 = project_fetch_retry_policy [OF g2, of 2 "tl demoPair"]
  have k: "(0::nat) < 2 - apiCalls demoState - 1" by (simp add: demoState_def)
  with t2 have f: "\<exists>e. ProjectsGet demoEnvLimited (apiCalls demoState + 0) (hr_ProjectID (snd (hd demoPair)))
              = Inl e \<and> containsAny e rateLimitIndicators"
    by blast
  from g a b c d e z g2 k f have old:
   "getProjectWithRateLimit (ProjectsGet demoEnvNotFound) (hr_ProjectID (snd (hd demoPair)))
      (apiCalls demoState) = (Inl ''404 Not Found'', 1, 0)
   \<and> ProjectsGet demoEnvNotFound (apiCalls demoState) (hr_ProjectID (snd (hd demoPair)))
       = Inl ''404 Not Found''
   \<and> \<not> containsAny ''404 Not Found'' rateLimitIndicators
   \<and> findFileRef (mrpackFiles demoEnvNotFound) (fst (hd demoPair)) \<noteq> None
   \<and> hr_ProjectID (snd (hd demoPair)) \<notin> set (installedProjects demoEnvNotFound)
   \<and> (\<exists>st'. importStep demoEnvNotFound 2 (hd demoPair) demoState = Completed st'
          \<and> successCount st' = 0 \<and> skippedCount st' = 0 \<and> processedCount st' = 1
          \<and> index st' = [] \<and> diskIndex st' = []
          \<and> importLoop demoEnvNotFound 2 (hd demoPair # tl demoPair) demoState
              = importLoop demoEnvNotFound 2 (tl demoPair) st')
   \<and> getProjectWithRateLimit (ProjectsGet demoEnvLimited) (hr_ProjectID (snd (hd demoPair)))
       (apiCalls demoState) = (Inr (demoProject ''p''), 2, 60)
   \<and> (0::nat) < 2 - apiCalls demoState - 1
   \<and> (\<exists>e. ProjectsGet demoEnvLimited (apiCalls demoState + 0) (hr_ProjectID (snd (hd demoPair)))
              = Inl e \<and> containsAny e rateLimitIndicators)"
    by simp
  have g3: "getProjectWithRateLimit (ProjectsGet demoEnvLimitedInstall)
        (hr_ProjectID (snd (hd demoPair))) (apiCalls demoState) = (Inr (demoProject ''p''), 1, 0)"
    by (simp add: demoEnvLimitedInstall_def demoEnv_def demoPair_def demoState_def
        getProjectWithRateLimit_unfold limitedAtInstall_def)
  have c3: "findFileRef (mrpackFiles demoEnvLimitedInstall) (fst (hd demoPair)) \<noteq> None"
    by code_simp
  have d3: "hr_ProjectID (snd (hd demoPair)) \<notin> set (installedProjects demoEnvLimitedInstall)"
    by (simp add: demoEnvLimitedInstall_def demoEnv_def)
  have v3: "VersionsGet demoEnvLimitedInstall 1 (hr_ID (snd (hd demoPair))) = Inr (demoVersion ''p-1'')"
    by (simp add: demoEnvLimitedInstall_def demoEnv_def demoPair_def)
  have p3: "ProjectsGet demoEnvLimitedInstall (1 + 1) (ver_ProjectID (demoVersion ''p-1''))
        = Inl ''429 Too Many Requests''"
    by (simp add: demoEnvLimitedInstall_def demoEnv_def limitedAtInstall_def)
  note t3 = project_fetch_retry_policy [OF g3, of 2 "tl demoPair"]
  note t3' = t3 [THEN conjunct2, THEN conjunct2, THEN conjunct2, THEN conjunct2,
                 THEN conjunct2, THEN conjunct2, THEN conjunct2, THEN conjunct2]
  have pre: "Inr (demoProject ''p'') = (Inr (demoProject ''p'') :: string + Project)
                 \<and> findFileRef (mrpackFiles demoEnvLimitedInstall) (fst (hd demoPair)) \<noteq> None
                 \<and> hr_ProjectID (snd (hd demoPair)) \<notin> set (installedProjects demoEnvLimitedInstall)
                 \<and> VersionsGet demoEnvLimitedInstall 1 (hr_ID (snd (hd demoPair)))
                      = Inr (demoVersion ''p-1'')
                 \<and> ProjectsGet demoEnvLimitedInstall (1 + 1) (ver_ProjectID (demoVersion ''p-1''))
                      = Inl ''429 Too Many Requests''"
    by (intro conjI refl) (rule c3 d3 v3 p3)+
  from t3' [rule_format, OF pre] obtain st' where
    s3: "importStep demoEnvLimitedInstall 2 (hd demoPair) demoState = Completed st'"
    and f3: "successCount st' = successCount demoState" "skippedCount st' = skippedCount demoState"
        "processedCount st' = processedCount demoState + 1"
        "index st' = index demoState" "diskIndex st' = diskIndex demoState"
        "apiCalls st' = 1 + 2" "slept st' = slept demoState + 0"
    and l3: "last (printed st') = FailedInstall (Title (demoProject ''p''))
                 (hr_ID (snd (hd demoPair))) (''failed to get project info: '' @ ''429 Too Many Requests'')"
    and i3: "importLoop demoEnvLimitedInstall 2 (hd demoPair # tl demoPair) demoState
              = importLoop demoEnvLimitedInstall 2 (tl demoPair) st'"
    by (elim exE conjE)
  from f3 z have f3': "successCount st' = 0 \<and> skippedCount st' = 0 \<and> processedCount st' = 1
          \<and> index st' = [] \<and> diskIndex st' = [] \<and> apiCalls st' = 3 \<and> slept st' = 0"
    by (simp add: demoState_def)
  from l3 have l3': "last (printed st') = FailedInstall (Title (demoProject ''p''))
                 (hr_ID (snd (hd demoPair))) ''failed to get project info: 429 Too Many Requests''"
    by simp
  from s3 f3' l3' i3 have new:
    "\<exists>st'. importStep demoEnvLimitedInstall 2 (hd demoPair) demoState = Completed st'
          \<and> successCount st' = 0 \<and> skippedCount st' = 0 \<and> processedCount st' = 1
          \<and> index st' = [] \<and> diskIndex st' = []
          \<and> apiCalls st' = 3 \<and> slept st' = 0
          \<and> last (printed st') = FailedInstall (Title (demoProject ''p''))
                 (hr_ID (snd (hd demoPair))) ''failed to get project info: 429 Too Many Requests''
          \<and> importLoop demoEnvLimitedInstall 2 (hd demoPair # tl demoPair) demoState
              = importLoop demoEnvLimitedInstall 2 (tl demoPair) st'"
    by (intro exI [of _ st']) (elim conjE, intro conjI; assumption)
  from old g3 c3 d3 v3 p3 new show ?thesis
    by (elim conjE) (intro conjI; assumption)
qed

subsection \<open>The import loop: which references are skipped\<close>

lemma importStep_counts:
  assumes "importStep env tm item st = Completed st'"
  shows "skippedCount st' = skippedCount st +
           (if findFileRef (mrpackFiles env) (fst item) \<noteq> None
               \<and> hr_ProjectID (snd item) \<in> set (installedProjects env) then 1 else 0)
       \<and> successCount st' \<le> successCount st +
           (if findFileRef (mrpackFiles env) (fst item) \<noteq> None
               \<and> hr_ProjectID (snd item) \<notin> set (installedProjects env) then 1 else 0)"
proof (cases "findFileRef (mrpackFiles env) (fst item)")
  case None
  with assms show ?thesis
    by (auto simp add: importStep_def Let_def split: if_splits)
next
  case (Some fileRef)
  show ?thesis
  proof (cases "hr_ProjectID (snd item) \<in> set (installedProjects env)")
    case True
    with Some assms show ?thesis
      by (auto simp add: importStep_def Let_def)
  next
    case False
    obtain res calls sl where g: "getProjectWithRateLimit (ProjectsGet env) (hr_ProjectID (snd item))
        (apiCalls st + 0) = (res, calls, sl)"
      by (cases "getProjectWithRateLimit (ProjectsGet env) (hr_ProjectID (snd item)) (apiCalls st + 0)") auto
    show ?thesis
    proof (cases res)
      case (Inl err)
      with Some False g assms show ?thesis
        by (auto simp add: importStep_def Let_def)
    next
      case (Inr project)
      define side where "side = (if getSide env project = [] then UniversalSide else getSide env project)"
      define st2 where "st2 = st\<lparr>processedCount := processedCount st + 1,
          apiCalls := calls, slept := slept st + sl,
          printed := (printed st @ map RateLimited [2 ..< 2 + sl div 60])
             @ (if getSide env project = [] then [WarnNoSide (Title project)] else [])
             @ [Installing (Title project) (processedCount st + 1) tm (hr_ID (snd item)) side]\<rparr>"
      obtain r st3 where inst: "installVersionByIdWithSide env (hr_ID (snd item)) [] side st2 = (r, st3)"
        by (cases "installVersionByIdWithSide env (hr_ID (snd item)) [] side st2") auto
      note fr = installVersionByIdWithSide_frame [OF inst]
      from Some False g Inr assms inst fr show ?thesis
        by (cases r)
           (auto simp add: importStep_def Let_def st2_def side_def saveProgress_frame split: if_splits)
    qed
  qed
qed


lemma importLoop_counts:
  "importLoop env tm batch st = Completed st' \<Longrightarrow>
   skippedCount st' = skippedCount st +
       length (filter (\<lambda>item. findFileRef (mrpackFiles env) (fst item) \<noteq> None
                 \<and> hr_ProjectID (snd item) \<in> set (installedProjects env)) batch)
   \<and> successCount st' \<le> successCount st +
       length (filter (\<lambda>item. findFileRef (mrpackFiles env) (fst item) \<noteq> None
                 \<and> hr_ProjectID (snd item) \<notin> set (installedProjects env)) batch)"
proof (induction batch arbitrary: st)
  case Nil
  then show ?case by simp
next
  case (Cons item batch)
  from Cons.prems obtain st1 where s: "importStep env tm item st = Completed st1"
    and l: "importLoop env tm batch st1 = Completed st'"
    by (auto split: loop_result.splits)
  from importStep_counts [OF s] Cons.IH [OF l] show ?case
    by (auto split: if_splits)
qed

text \<open>
  Claim C3, as stated, fails: of two references that share a project already installed, the
  loop skips both, in either order, and installs none.
\<close>

theorem import_skips_both_counterexample:
  "skippedCount (resultState (importLoop (demoEnv 2 [''p''] noWriteError) 2 demoPair demoState)) = 2
   \<and> successCount (resultState (importLoop (demoEnv 2 [''p''] noWriteError) 2 demoPair demoState)) = 0
   \<and> skippedCount (resultState (importLoop (demoEnv 2 [''p''] noWriteError) 2 (rev demoPair) demoState)) = 2
   \<and> successCount (resultState (importLoop (demoEnv 2 [''p''] noWriteError) 2 (rev demoPair) demoState)) = 0"
  by code_simp

text \<open>
  Claim C3, amended: in a loop that completes, every reference to a file of the manifest
  whose project is in the list of installed projects is counted as skipped, and none of them
  is installed: the counter of skipped references grows by the number of these references,
  and the counter of installations by no more than the number of the other references to
  files of the manifest. The batch is any list, so this holds for every order of iteration.
\<close>

theorem import_skips_installed_projects:
  assumes "importLoop env tm batch st = Completed st'"
  shows "skippedCount st' = skippedCount st +
           length (filter (\<lambda>item. findFileRef (mrpackFiles env) (fst item) \<noteq> None
                     \<and> hr_ProjectID (snd item) \<in> set (installedProjects env)) batch)
       \<and> successCount st' \<le> successCount st +
           length (filter (\<lambda>item. findFileRef (mrpackFiles env) (fst item) \<noteq> None
                     \<and> hr_ProjectID (snd item) \<notin> set (installedProjects env)) batch)"
  using assms by (rule importLoop_counts)

lemma demoPair_skipped:
  "importLoop (demoEnv 2 [''p''] noWriteError) 2 demoPair demoState =
     Completed (demoState\<lparr>skippedCount := 2, processedCount := 2,
                         printed := [SkipInstalled ''p'', SkipInstalled ''p'']\<rparr>)"
  by code_simp

theorem import_skips_installed_projects_witness:
  "importLoop (demoEnv 2 [''p''] noWriteError) 2 demoPair demoState =
     Completed (demoState\<lparr>skippedCount := 2, processedCount := 2,
                         printed := [SkipInstalled ''p'', SkipInstalled ''p'']\<rparr>)
   \<and> length (filter (\<lambda>item. findFileRef (mrpackFiles (demoEnv 2 [''p''] noWriteError)) (fst item) \<noteq> None
                 \<and> hr_ProjectID (snd item) \<in> set (installedProjects (demoEnv 2 [''p''] noWriteError))) demoPair) = 2
   \<and> skippedCount (demoState\<lparr>skippedCount := 2, processedCount := 2,
                         printed := [SkipInstalled ''p'', SkipInstalled ''p'']\<rparr>) = skippedCount demoState + 2
   \<and> successCount (demoState\<lparr>skippedCount := 2, processedCount := 2,
                         printed := [SkipInstalled ''p'', SkipInstalled ''p'']\<rparr>) \<le> successCount demoState + 0"
proof -
  have n: "length (filter (\<lambda>item. findFileRef (mrpackFiles (demoEnv 2 [''p''] noWriteError)) (fst item) \<noteq> None
                 \<and> hr_ProjectID (snd item) \<in> set (installedProjects (demoEnv 2 [''p''] noWriteError))) demoPair) = 2"
    by code_simp
  have n': "length (filter (\<lambda>item. findFileRef (mrpackFiles (demoEnv 2 [''p''] noWriteError)) (fst item) \<noteq> None
                 \<and> hr_ProjectID (snd item) \<notin> set (installedProjects (demoEnv 2 [''p''] noWriteError))) demoPair) = 0"
    by code_simp
  from import_skips_installed_projects [OF demoPair_skipped] n n' demoPair_skipped
  show ?thesis by simp
qed

subsection \<open>The import loop: no de-duplication within a batch\<close>






subsection \<open>Checkpoints of the import loop\<close>

text \<open>
  A run that a signal interrupts after \<open>k\<close> iterations, and a run whose loop panics, end
  with \<open>saveProgress\<close> in the state the loop has reached; a run whose loop completes ends
  with the final writes.
\<close>

lemma importSignalled_state:
  "snd (importSignalled env versionMap k st) =
     saveProgress env (resultState (importLoop env (length versionMap) (take k versionMap) st))"
  by (simp add: importSignalled_def resultState_def split: loop_result.splits)

lemma importBatch_state:
  "snd (importBatch env versionMap st) =
     (case importLoop env (length versionMap) versionMap st of
        Panicked st' \<Rightarrow> saveProgress env st'
      | Completed st' \<Rightarrow> snd (importFinish env st'))"
  by (simp add: importBatch_def split: loop_result.splits)

text \<open>
  Claim C1, as stated, fails: \<open>saveProgress\<close> only warns when the index cannot be written.
  With a disk that refuses every write, ten installations succeed, the checkpoint after the
  tenth leaves the index file without any of their entries, and so does the call of
  \<open>saveProgress\<close> that a signal or a panic triggers afterwards.
\<close>

theorem checkpoint_write_failure_counterexample:
  "successCount (resultState (importLoop (demoEnv 10 [] diskFull) 10 (map demoItem [0 ..< 10]) demoState)) = 10
   \<and> length (refreshed (resultState (importLoop (demoEnv 10 [] diskFull) 10 (map demoItem [0 ..< 10]) demoState))) = 10
   \<and> diskIndex (resultState (importLoop (demoEnv 10 [] diskFull) 10 (map demoItem [0 ..< 10]) demoState)) = []
   \<and> diskIndex (saveProgress (demoEnv 10 [] diskFull)
        (resultState (importLoop (demoEnv 10 [] diskFull) 10 (map demoItem [0 ..< 10]) demoState))) = []"
  by code_simp

text \<open>
  Claim C1, amended: provided that every attempt to write the index succeeds, in the state
  \<open>st\<close> reached by the loop after any part of the batch, with \<open>N = successCount st\<close>
  successful installations, the index file on disk has the entries of the first
  \<open>N div 10 * 10\<close> installations. When \<open>N\<close> is positive, the call of \<open>saveProgress\<close> made
  on a signal or a panic writes the whole index, with the entries of all \<open>N\<close> installations,
  and, if taking the hash and writing the pack succeed too, the hash of that index into the
  pack file. The end of a run without interruption writes the whole index whatever \<open>N\<close> is.
\<close>

theorem checkpoint_bound:
  assumes ok: "\<forall>n. indexWriteErr env n = None"
    and init: "successCount st0 = 0" "refreshed st0 = []"
    and run: "st = resultState (importLoop env tm items st0)"
  shows "length (refreshed st) = successCount st
       \<and> set (take (successCount st div 10 * 10) (refreshed st)) \<subseteq> fst ` set (diskIndex st)
       \<and> (0 < successCount st \<longrightarrow>
             diskIndex (saveProgress env st) = index st
             \<and> set (refreshed st) \<subseteq> fst ` set (diskIndex (saveProgress env st)))
       \<and> (0 < successCount st \<and> updateIndexHashErr env (writes st) = None
              \<and> packWriteErr env (writes st) = None \<longrightarrow>
             diskPackIndexHash (saveProgress env st) = hashIndex env (index st))
       \<and> diskIndex (snd (importFinish env st)) = index st
       \<and> set (refreshed st) \<subseteq> fst ` set (diskIndex (snd (importFinish env st)))"
proof -
  have "checkpointInv env st0" using init by (simp add: checkpointInv_def)
  with ok have i: "checkpointInv env st" unfolding run by (rule importLoop_inv)
  have fin: "diskIndex (snd (importFinish env st)) = index st"
    using ok by (simp add: importFinish_def Let_def split: option.splits)
  have pk: "0 < successCount st \<and> updateIndexHashErr env (writes st) = None
              \<and> packWriteErr env (writes st) = None \<longrightarrow>
             diskPackIndexHash (saveProgress env st) = hashIndex env (index st)"
    using ok by (simp add: saveProgress_def Let_def)
  from i fin ok pk show ?thesis
    by (auto simp add: checkpointInv_def saveProgress_diskIndex)
qed

lemma demo23: "successCount (resultState (importLoop (demoEnv 25 [] noWriteError) 25
                  (take 23 (map demoItem [0 ..< 25])) demoState)) = 23"
  by code_simp

theorem checkpoint_bound_witness:
  "(\<forall>n. indexWriteErr (demoEnv 25 [] noWriteError) n = None)
   \<and> successCount demoState = 0 \<and> refreshed demoState = []
   \<and> updateIndexHashErr (demoEnv 25 [] noWriteError)
        (writes (resultState (importLoop (demoEnv 25 [] noWriteError) 25
                  (take 23 (map demoItem [0 ..< 25])) demoState))) = None
   \<and> packWriteErr (demoEnv 25 [] noWriteError)
        (writes (resultState (importLoop (demoEnv 25 [] noWriteError) 25
                  (take 23 (map demoItem [0 ..< 25])) demoState))) = None
   \<and> successCount (resultState (importLoop (demoEnv 25 [] noWriteError) 25
                  (take 23 (map demoItem [0 ..< 25])) demoState)) = 23
   \<and> set (take 20 (refreshed (resultState (importLoop (demoEnv 25 [] noWriteError) 25
                  (take 23 (map demoItem [0 ..< 25])) demoState))))
       \<subseteq> fst ` set (diskIndex (resultState (importLoop (demoEnv 25 [] noWriteError) 25
                  (take 23 (map demoItem [0 ..< 25])) demoState)))
   \<and> set (refreshed (resultState (importLoop (demoEnv 25 [] noWriteError) 25
                  (take 23 (map demoItem [0 ..< 25])) demoState)))
       \<subseteq> fst ` set (diskIndex (saveProgress (demoEnv 25 [] noWriteError)
             (resultState (importLoop (demoEnv 25 [] noWriteError) 25
                  (take 23 (map demoItem [0 ..< 25])) demoState))))
   \<and> diskPackIndexHash (saveProgress (demoEnv 25 [] noWriteError)
             (resultState (importLoop (demoEnv 25 [] noWriteError) 25
                  (take 23 (map demoItem [0 ..< 25])) demoState)))
       = hashIndex (demoEnv 25 [] noWriteError)
           (index (resultState (importLoop (demoEnv 25 [] noWriteError) 25
                  (take 23 (map demoItem [0 ..< 25])) demoState)))"
proof -
  have ok: "\<forall>n. indexWriteErr (demoEnv 25 [] noWriteError) n = None"
    by (simp add: demoEnv_def noWriteError_def)
  have i1: "successCount demoState = 0" and i2: "refreshed demoState = []"
    by (simp_all add: demoState_def)
  note t = checkpoint_bound [OF ok i1 i2 refl, of 25 "take 23 (map demoItem [0 ..< 25])"]
  from t have b: "set (take (successCount (resultState (importLoop (demoEnv 25 [] noWriteError) 25
                  (take 23 (map demoItem [0 ..< 25])) demoState)) div 10 * 10)
        (refreshed (resultState (importLoop (demoEnv 25 [] noWriteError) 25
                  (take 23 (map demoItem [0 ..< 25])) demoState))))
       \<subseteq> fst ` set (diskIndex (resultState (importLoop (demoEnv 25 [] noWriteError) 25
                  (take 23 (map demoItem [0 ..< 25])) demoState)))"
    by blast
  have b': "set (take 20 (refreshed (resultState (importLoop (demoEnv 25 [] noWriteError) 25
                  (take 23 (map demoItem [0 ..< 25])) demoState))))
       \<subseteq> fst ` set (diskIndex (resultState (importLoop (demoEnv 25 [] noWriteError) 25
                  (take 23 (map demoItem [0 ..< 25])) demoState)))"
    using b unfolding demo23 by simp
  have pos: "0 < successCount (resultState (importLoop (demoEnv 25 [] noWriteError) 25
                  (take 23 (map demoItem [0 ..< 25])) demoState))"
    unfolding demo23 by simp
  with t have s: "set (refreshed (resultState (importLoop (demoEnv 25 [] noWriteError) 25
                  (take 23 (map demoItem [0 ..< 25])) demoState)))
       \<subseteq> fst ` set (diskIndex (saveProgress (demoEnv 25 [] noWriteError)
             (resultState (importLoop (demoEnv 25 [] noWriteError) 25
                  (take 23 (map demoItem [0 ..< 25])) demoState))))"
    by blast
  have u: "updateIndexHashErr (demoEnv 25 [] noWriteError)
        (writes (resultState (importLoop (demoEnv 25 [] noWriteError) 25
                  (take 23 (map demoItem [0 ..< 25])) demoState))) = None"
    and p: "packWriteErr (demoEnv 25 [] noWriteError)
        (writes (resultState (importLoop (demoEnv 25 [] noWriteError) 25
                  (take 23 (map demoItem [0 ..< 25])) demoState))) = None"
    by (simp_all add: demoEnv_def noWriteError_def)
  from t pos u p have h: "diskPackIndexHash (saveProgress (demoEnv 25 [] noWriteError)
             (resultState (importLoop (demoEnv 25 [] noWriteError) 25
                  (take 23 (map demoItem [0 ..< 25])) demoState)))
       = hashIndex (demoEnv 25 [] noWriteError)
           (index (resultState (importLoop (demoEnv 25 [] noWriteError) 25
                  (take 23 (map demoItem [0 ..< 25])) demoState)))"
    by blast
  from ok i1 i2 u p demo23 b' s h show ?thesis by blast
qed


subsection \<open>The diff command: counting the records of the pack by source\<close>

lemma tallyMod_not_catalog:
  assumes "\<not> (\<exists>pid v. GetParsedUpdateData m ''modrinth'' = Some (mrUpdateData pid v) \<and> pid \<noteq> [])"
    and "GetParsedUpdateData m ''curseforge'' = None"
  shows "tallyMod m (mods, s) =
           (if URL (Download m) \<noteq> []
            then (if list_ex (\<lambda>key. key \<noteq> ''modrinth'' \<and> key \<noteq> ''curseforge'') (map fst (Update m))
                  then (mods, s\<lparr>src_Other := src_Other s + 1\<rparr>)
                  else (mods, s\<lparr>src_URL := src_URL s + 1\<rparr>))
            else (mods, s))"
  using assms
  by (auto simp add: tallyMod_def split: option.splits update_data.splits)

text \<open>
  Claim C7, as stated, fails in both directions. A record without any update source is not
  counted as a bare URL when its download has no URL: it is counted nowhere. A record with a
  CurseForge update source and one under another name is counted for CurseForge, not as
  another source.
\<close>

theorem tally_by_source_counterexample:
  "Update (demoMod [] [] []) = []
   \<and> src_URL (snd (tallyMod (demoMod [] [] []) ([], noSources))) = 0
   \<and> map fst (Update (demoMod ''https://example.org/a.jar''
                  [(''curseforge'', []), (''github'', [])]
                  [(''curseforge'', otherUpdateData []), (''github'', otherUpdateData [])]))
       = [''curseforge'', ''github'']
   \<and> src_Other (snd (tallyMod (demoMod ''https://example.org/a.jar''
                  [(''curseforge'', []), (''github'', [])]
                  [(''curseforge'', otherUpdateData []), (''github'', otherUpdateData [])])
                ([], noSources))) = 0"
  by (simp add: tallyMod_def demoMod_def noSources_def GetParsedUpdateData_def)

text \<open>
  Claim C7, amended: a record that is not counted for Modrinth (no Modrinth update data with
  a project identifier) nor for CurseForge (no CurseForge update data) and whose download has
  a URL is counted as a bare URL if and only if none of its update sources has a name other
  than \<^verbatim>\<open>modrinth\<close> and \<^verbatim>\<open>curseforge\<close>, and as another source if and only if one of
  them has; the counts of the two catalogs and the map of Modrinth mods are unchanged.
\<close>

theorem tally_by_source:
  assumes "\<not> (\<exists>pid v. GetParsedUpdateData m ''modrinth'' = Some (mrUpdateData pid v) \<and> pid \<noteq> [])"
    and "GetParsedUpdateData m ''curseforge'' = None"
    and "URL (Download m) \<noteq> []"
  shows "(src_URL (snd (tallyMod m (mods, s))) = src_URL s + 1
            \<longleftrightarrow> (\<forall>k \<in> set (map fst (Update m)). k = ''modrinth'' \<or> k = ''curseforge''))
       \<and> (src_Other (snd (tallyMod m (mods, s))) = src_Other s + 1
            \<longleftrightarrow> (\<exists>k \<in> set (map fst (Update m)). k \<noteq> ''modrinth'' \<and> k \<noteq> ''curseforge''))
       \<and> src_Modrinth (snd (tallyMod m (mods, s))) = src_Modrinth s
       \<and> src_CurseForge (snd (tallyMod m (mods, s))) = src_CurseForge s
       \<and> fst (tallyMod m (mods, s)) = mods"
  unfolding tallyMod_not_catalog [OF assms(1,2)] using assms(3)
  by (auto simp add: list_ex_iff)

theorem tally_by_source_witness:
  "\<not> (\<exists>pid v. GetParsedUpdateData (demoMod ''https://example.org/a.jar'' [(''github'', [])]
                    [(''github'', otherUpdateData [])]) ''modrinth''
                = Some (mrUpdateData pid v) \<and> pid \<noteq> [])
   \<and> GetParsedUpdateData (demoMod ''https://example.org/a.jar'' [(''github'', [])]
                    [(''github'', otherUpdateData [])]) ''curseforge'' = None
   \<and> URL (Download (demoMod ''https://example.org/a.jar'' [(''github'', [])]
                    [(''github'', otherUpdateData [])])) \<noteq> []
   \<and> ''github'' \<in> set (map fst (Update (demoMod ''https://example.org/a.jar'' [(''github'', [])]
                    [(''github'', otherUpdateData [])])))
   \<and> src_Other (snd (tallyMod (demoMod ''https://example.org/a.jar'' [(''github'', [])]
                    [(''github'', otherUpdateData [])]) ([], noSources))) = src_Other noSources + 1
   \<and> src_URL (snd (tallyMod (demoMod ''https://example.org/a.jar'' [(''github'', [])]
                    [(''github'', otherUpdateData [])]) ([], noSources))) \<noteq> src_URL noSources + 1"
proof -
  have a: "\<not> (\<exists>pid v. GetParsedUpdateData (demoMod ''https://example.org/a.jar'' [(''github'', [])]
                    [(''github'', otherUpdateData [])]) ''modrinth''
                = Some (mrUpdateData pid v) \<and> pid \<noteq> [])"
    by (simp add: GetParsedUpdateData_def demoMod_def)
  have b: "GetParsedUpdateData (demoMod ''https://example.org/a.jar'' [(''github'', [])]
                    [(''github'', otherUpdateData [])]) ''curseforge'' = None"
    by (simp add: GetParsedUpdateData_def demoMod_def)
  have c: "URL (Download (demoMod ''https://example.org/a.jar'' [(''github'', [])]
                    [(''github'', otherUpdateData [])])) \<noteq> []"
    by (simp add: demoMod_def)
  have d: "''github'' \<in> set (map fst (Update (demoMod ''https://example.org/a.jar'' [(''github'', [])]
                    [(''github'', otherUpdateData [])])))"
    by (simp add: demoMod_def)
  have e: "''github'' \<noteq> ''modrinth'' \<and> ''github'' \<noteq> ''curseforge''" by simp
  note t = tally_by_source [OF a b c, of "[]" noSources]
  have ex: "\<exists>k \<in> set (map fst (Update (demoMod ''https://example.org/a.jar'' [(''github'', [])]
                    [(''github'', otherUpdateData [])]))). k \<noteq> ''modrinth'' \<and> k \<noteq> ''curseforge''"
    using e d by (rule bexI [where x = "''github''"])
  have nall: "\<not> (\<forall>k \<in> set (map fst (Update (demoMod ''https://example.org/a.jar'' [(''github'', [])]
                    [(''github'', otherUpdateData [])]))). k = ''modrinth'' \<or> k = ''curseforge'')"
  proof
    assume "\<forall>k \<in> set (map fst (Update (demoMod ''https://example.org/a.jar'' [(''github'', [])]
                    [(''github'', otherUpdateData [])]))). k = ''modrinth'' \<or> k = ''curseforge''"
    from bspec [OF this d] show False by simp
  qed
  have o: "src_Other (snd (tallyMod (demoMod ''https://example.org/a.jar'' [(''github'', [])]
                    [(''github'', otherUpdateData [])]) ([], noSources))) = src_Other noSources + 1"
    by (rule t [THEN conjunct2, THEN conjunct1, THEN iffD2, OF ex])
  have u: "src_URL (snd (tallyMod (demoMod ''https://example.org/a.jar'' [(''github'', [])]
                    [(''github'', otherUpdateData [])]) ([], noSources))) \<noteq> src_URL noSources + 1"
  proof
    assume "src_URL (snd (tallyMod (demoMod ''https://example.org/a.jar'' [(''github'', [])]
                    [(''github'', otherUpdateData [])]) ([], noSources))) = src_URL noSources + 1"
    from t [THEN conjunct1, THEN iffD1, OF this] nall show False by (rule notE [rotated])
  qed
  show ?thesis by (intro conjI) (rule a b c d o u)+
qed

subsection \<open>The diff command: the three lists\<close>

text \<open>Each of the three lists that \<open>compareMods\<close> returns is sorted by display name.\<close>

lemma compareMods_sorted:
  "sorted (map ProjectName (fst (compareMods current mrpack)))
   \<and> sorted (map ProjectName (fst (snd (compareMods current mrpack))))
   \<and> sorted (map ProjectName (snd (snd (compareMods current mrpack))))"
  by (simp add: compareMods_def Let_def)

text \<open>
  Claim C4, at a failing input: the bundle resolves to two projects with the same title and
  the pack has neither. The two lists below are the same map, gone through in the two
  possible orders; the list of missing mods comes out in the order of the run, since the
  sort compares display names only.
\<close>

theorem compareMods_depends_on_order:
  "distinct (map fst demoBundleMods)
   \<and> set (rev demoBundleMods) = set demoBundleMods
   \<and> fst (compareMods [] demoBundleMods) = map snd demoBundleMods
   \<and> fst (compareMods [] (rev demoBundleMods)) = rev (map snd demoBundleMods)
   \<and> rev (map snd demoBundleMods) \<noteq> map snd demoBundleMods"
proof -
  have a: "distinct (map fst demoBundleMods)" by (simp add: demoBundleMods_def)
  have b: "set (rev demoBundleMods) = set demoBundleMods" by (rule set_rev)
  have c: "fst (compareMods [] demoBundleMods) = map snd demoBundleMods"
    by (simp add: compareMods_def demoBundleMods_def)
  have d: "fst (compareMods [] (rev demoBundleMods)) = rev (map snd demoBundleMods)"
    by (simp add: compareMods_def demoBundleMods_def)
  have e: "rev (map snd demoBundleMods) \<noteq> map snd demoBundleMods"
    by (simp add: demoBundleMods_def)
  show ?thesis by (intro conjI) (rule a b c d e)+
qed

text \<open>
  The map built by \<open>getMrpackModsWithInfo\<close> depends on the order of the run as well: for
  two files of the bundle that resolve to two versions of one project, the version entered
  last stays, and the list of changed mods of a pack that has the first version is empty in
  one order and not in the other.
\<close>

lemma getMrpackModsWithInfo_depends_on_order:
  "getMrpackModsWithInfo (demoDiffEnv demoPair) demoManifest =
     Inr [(''p'', \<lparr>mi_ProjectID = ''p'', mi_VersionID = ''p-2'', ProjectName = ''Mod p'',
                   mi_FileName = ''mods/pp.jar'', mi_Side = ''both''\<rparr>)]"
  "getMrpackModsWithInfo (demoDiffEnv (rev demoPair)) demoManifest =
     Inr [(''p'', \<lparr>mi_ProjectID = ''p'', mi_VersionID = ''p-1'', ProjectName = ''Mod p'',
                   mi_FileName = ''mods/p.jar'', mi_Side = ''both''\<rparr>)]"
  "snd (snd (compareMods demoCurrentMods
       [(''p'', \<lparr>mi_ProjectID = ''p'', mi_VersionID = ''p-2'', ProjectName = ''Mod p'',
                 mi_FileName = ''mods/pp.jar'', mi_Side = ''both''\<rparr>)])) \<noteq> []"
  "snd (snd (compareMods demoCurrentMods
       [(''p'', \<lparr>mi_ProjectID = ''p'', mi_VersionID = ''p-1'', ProjectName = ''Mod p'',
                 mi_FileName = ''mods/p.jar'', mi_Side = ''both''\<rparr>)])) = []"
  by code_simp+

subsection \<open>The diff command: nothing is written\<close>

text \<open>
  Claim C8. Whatever the pack and the bundle, the diff command leaves the files on disk as
  they are, and the index in memory is, from its loading on, the index that was loaded.
\<close>

theorem diffCmd_read_only:
  "filesOnDisk (snd (diffCmd env mrpackFilePath w)) = filesOnDisk w
   \<and> (indexInMemory (snd (diffCmd env mrpackFilePath w)) = indexInMemory w
      \<or> (\<exists>pack idx. LoadPack env (filesOnDisk w) = Inr pack
            \<and> LoadIndex env (filesOnDisk w) pack = Inr idx
            \<and> indexInMemory (snd (diffCmd env mrpackFilePath w)) = Some idx))"
proof (cases "LoadPack env (filesOnDisk w)")
  case (Inl err)
  then show ?thesis by (simp add: diffCmd_def)
next
  case (Inr pack)
  note p = this
  show ?thesis
  proof (cases "LoadIndex env (filesOnDisk w) pack")
    case (Inl err)
    with p show ?thesis by (simp add: diffCmd_def)
  next
    case (Inr idx)
    have "snd (diffCmd env mrpackFilePath w) = w\<lparr>indexInMemory := Some idx\<rparr>"
      using p Inr
      by (simp add: diffCmd_def Let_def split: sum.splits prod.splits)
    with p Inr show ?thesis by simp
  qed
qed

end
